theory Spec2Isabelle
  imports Complex_Main "HOL-Library.AList"
begin

section \<open>Python and torch values\<close>

text \<open>
  The exceptions the modelled code can raise.  \<open>PyException\<close> is the bare
  \<^verbatim>\<open>Exception(msg)\<close> raised by \<^verbatim>\<open>RepresentationProjectionLayer.__init__\<close>;
  the others are the builtin exception classes of the same name.  A function that can
  raise returns \<open>error + 'a\<close> with \<open>Inl\<close> for the exception.
\<close>

datatype error =
    PyException string
  | ValueError
  | IndexError
  | KeyError
  | RuntimeError
  | NotImplementedError
  | AttributeError

definition ebind :: "error + 'a \<Rightarrow> ('a \<Rightarrow> error + 'b) \<Rightarrow> error + 'b" where
  "ebind m f = (case m of Inl e \<Rightarrow> Inl e | Inr x \<Rightarrow> f x)"

text \<open>
  The records written by \<^verbatim>\<open>logger.warning\<close>, one constructor per call site, carrying
  the values the message is formatted from.
\<close>

datatype diagnostic =
    ParameterNotPresent string string
  | RelationFanInNotImplemented "nat list"
  | SequenceFanInNotImplemented

subsection \<open>Tensors\<close>

text \<open>
  A tensor is its shape together with its entries, addressed by multi-index
  (one component per axis).  Only the entries at in-range indices are meaningful.
\<close>

record 'a tensor =
  shape :: "nat list"
  elems :: "nat list \<Rightarrow> 'a"

definition ndim :: "'a tensor \<Rightarrow> nat" where
  "ndim t = length (shape t)"

definition numel :: "'a tensor \<Rightarrow> nat" where
  "numel t = prod_list (shape t)"

text \<open>\<^verbatim>\<open>t.shape[k]\<close> for a non-negative literal \<open>k\<close>.\<close>

definition shape_at :: "'a tensor \<Rightarrow> nat \<Rightarrow> error + nat" where
  "shape_at t k = (if k < ndim t then Inr (shape t ! k) else Inl IndexError)"

text \<open>\<^verbatim>\<open>t.unsqueeze(d)\<close>: a new axis of size 1 at position \<open>d\<close>.\<close>

definition unsqueeze :: "nat \<Rightarrow> 'a tensor \<Rightarrow> error + 'a tensor" where
  "unsqueeze d t =
     (if d \<le> ndim t
      then Inr \<lparr> shape = take d (shape t) @ [1] @ drop d (shape t),
                 elems = (\<lambda>idx. elems t (take d idx @ drop (Suc d) idx)) \<rparr>
      else Inl IndexError)"

text \<open>
  \<^verbatim>\<open>t.repeat(*reps)\<close>: tile the tensor \<open>reps ! k\<close> times along axis \<open>k\<close>.
  torch refuses fewer repeat counts than axes, and pads the shape with leading
  axes of size 1 when there are more.
\<close>

definition repeat :: "nat list \<Rightarrow> 'a tensor \<Rightarrow> error + 'a tensor" where
  "repeat reps t =
     (if length reps < ndim t then Inl RuntimeError
      else
        let pad = length reps - ndim t;
            sh = replicate pad 1 @ shape t
        in Inr \<lparr> shape = map2 (*) reps sh,
                  elems = (\<lambda>idx. elems t (drop pad (map2 (mod) idx sh))) \<rparr>)"

text \<open>
  \<^verbatim>\<open>torch.cat((a, b), d)\<close>: both tensors must have the same number of axes and agree
  on every axis but \<open>d\<close>.
\<close>

definition cat :: "'a tensor \<Rightarrow> 'a tensor \<Rightarrow> nat \<Rightarrow> error + 'a tensor" where
  "cat a b d =
     (if ndim a \<noteq> ndim b then Inl RuntimeError
      else if \<not> d < ndim a then Inl IndexError
      else if (shape a)[d := 0] \<noteq> (shape b)[d := 0] then Inl RuntimeError
      else Inr \<lparr> shape = (shape a)[d := shape a ! d + shape b ! d],
                 elems = (\<lambda>idx. if idx ! d < shape a ! d then elems a idx
                                 else elems b (idx[d := idx ! d - shape a ! d])) \<rparr>)"

text \<open>
  Basic indexing \<^verbatim>\<open>t[i0, i1, ...]\<close> with integers, full slices \<^verbatim>\<open>:\<close> and slices
  \<^verbatim>\<open>a:b\<close> with non-negative bounds.  An integer index must be in range and removes
  its axis; a slice is clamped to the axis; more indices than axes raise.
\<close>

datatype index = All | At nat | Range nat nat

fun getitem_shape :: "index list \<Rightarrow> nat list \<Rightarrow> error + nat list" where
  "getitem_shape [] sh = Inr sh"
| "getitem_shape (ix # ixs) [] = Inl IndexError"
| "getitem_shape (All # ixs) (d # sh) = map_sum id ((#) d) (getitem_shape ixs sh)"
| "getitem_shape (At i # ixs) (d # sh) =
     (if i < d then getitem_shape ixs sh else Inl IndexError)"
| "getitem_shape (Range a b # ixs) (d # sh) =
     map_sum id ((#) (min b d - min a d)) (getitem_shape ixs sh)"

text \<open>The index in the source tensor of the entry at \<open>idx\<close> in the result.\<close>

fun getitem_index :: "index list \<Rightarrow> nat list \<Rightarrow> nat list" where
  "getitem_index [] idx = idx"
| "getitem_index (At i # ixs) idx = i # getitem_index ixs idx"
| "getitem_index (All # ixs) (k # idx) = k # getitem_index ixs idx"
| "getitem_index (Range a b # ixs) (k # idx) = (a + k) # getitem_index ixs idx"
| "getitem_index (ix # ixs) [] = []"

definition getitem :: "index list \<Rightarrow> 'a tensor \<Rightarrow> error + 'a tensor" where
  "getitem ixs t =
     map_sum id (\<lambda>sh. \<lparr> shape = sh, elems = (\<lambda>idx. elems t (getitem_index ixs idx)) \<rparr>)
       (getitem_shape ixs (shape t))"

text \<open>\<^verbatim>\<open>t[..., i0, i1]\<close>: the ellipsis stands for a full slice of every leading axis.\<close>

definition getitem_ellipsis :: "index list \<Rightarrow> 'a tensor \<Rightarrow> error + 'a tensor" where
  "getitem_ellipsis ixs t =
     (if ndim t < length ixs then Inl IndexError
      else getitem (replicate (ndim t - length ixs) All @ ixs) t)"

text \<open>
  \<^verbatim>\<open>xs[i]\<close> on a Python list or tuple: a negative index counts from the end.
\<close>

definition py_getitem :: "'a list \<Rightarrow> int \<Rightarrow> error + 'a" where
  "py_getitem xs i =
     (let n = int (length xs); j = (if i < 0 then n + i else i)
      in if 0 \<le> j \<and> j < n then Inr (xs ! nat j) else Inl IndexError)"

text \<open>A dict lookup \<^verbatim>\<open>d[k]\<close>.\<close>

definition py_lookup :: "('k \<rightharpoonup> 'v) \<Rightarrow> 'k \<Rightarrow> error + 'v" where
  "py_lookup d k = (case d k of None \<Rightarrow> Inl KeyError | Some v \<Rightarrow> Inr v)"

text \<open>
  Row-major position of a multi-index, and back.  \<^verbatim>\<open>view\<close> and \<^verbatim>\<open>reshape\<close> keep the
  row-major sequence of entries and change the shape.  A size of \<open>-1\<close> is inferred from
  the others; torch refuses two of them, an inferred size that is ambiguous or not
  integral, and a shape with another number of entries.  (The strides that make
  \<^verbatim>\<open>view\<close> refuse some non-contiguous tensors are not modelled.)
\<close>

fun ravel :: "nat list \<Rightarrow> nat list \<Rightarrow> nat" where
  "ravel (d # sh) (i # idx) = i * prod_list sh + ravel sh idx"
| "ravel sh idx = 0"

fun unravel :: "nat list \<Rightarrow> nat \<Rightarrow> nat list" where
  "unravel [] n = []"
| "unravel (d # sh) n = (n div prod_list sh) # unravel sh (n mod prod_list sh)"

definition reshape :: "nat list \<Rightarrow> 'a tensor \<Rightarrow> error + 'a tensor" where
  "reshape sh t =
     (if prod_list sh = numel t
      then Inr \<lparr> shape = sh, elems = (\<lambda>idx. elems t (unravel (shape t) (ravel sh idx))) \<rparr>
      else Inl RuntimeError)"

definition view :: "int list \<Rightarrow> 'a tensor \<Rightarrow> error + 'a tensor" where
  "view sizes t =
     (let known = prod_list (map nat (filter (\<lambda>z. z \<noteq> - 1) sizes)) in
      if (\<exists>z \<in> set sizes. z < - 1) \<or> 1 < count_list sizes (- 1) then Inl RuntimeError
      else if count_list sizes (- 1) = 1 then
        if known = 0 \<or> numel t mod known \<noteq> 0 then Inl RuntimeError
        else reshape (map (\<lambda>z. if z = - 1 then numel t div known else nat z) sizes) t
      else reshape (map nat sizes) t)"

text \<open>
  \<^verbatim>\<open>t.permute(*perm)\<close>: axis \<open>k\<close> of the result is axis \<open>perm ! k\<close> of \<open>t\<close>;
  \<^verbatim>\<open>t.transpose(-1, -2)\<close> swaps the last two axes.
\<close>

definition position_of :: "nat \<Rightarrow> nat list \<Rightarrow> nat" where
  "position_of a perm = length (takeWhile (\<lambda>x. x \<noteq> a) perm)"

definition permute :: "nat list \<Rightarrow> 'a tensor \<Rightarrow> error + 'a tensor" where
  "permute perm t =
     (if length perm = ndim t \<and> set perm = {..<ndim t}
      then Inr \<lparr> shape = map (\<lambda>a. shape t ! a) perm,
                 elems = (\<lambda>idx. elems t (map (\<lambda>a. idx ! position_of a perm) [0..<ndim t])) \<rparr>
      else Inl RuntimeError)"

definition transpose_last2 :: "'a tensor \<Rightarrow> error + 'a tensor" where
  "transpose_last2 t =
     (if ndim t < 2 then Inl IndexError
      else permute ([0..<ndim t - 2] @ [ndim t - 1, ndim t - 2]) t)"

text \<open>
  \<^verbatim>\<open>t.expand(*sizes)\<close> for as many sizes as axes: an axis of size 1 is read at
  index 0 for every index of the new size; any other axis must keep its size.  (torch
  also accepts more sizes than axes; the code never passes more.)
\<close>

definition broadcast_index :: "nat list \<Rightarrow> nat list \<Rightarrow> nat list" where
  "broadcast_index sh idx =
     map2 (\<lambda>i d. if d = 1 then 0 else i) (drop (length idx - length sh) idx) sh"

definition expand :: "nat list \<Rightarrow> 'a tensor \<Rightarrow> error + 'a tensor" where
  "expand sizes t =
     (if length sizes = ndim t \<and> list_all2 (\<lambda>n d. d = n \<or> d = 1) sizes (shape t)
      then Inr \<lparr> shape = sizes, elems = (\<lambda>idx. elems t (broadcast_index (shape t) idx)) \<rparr>
      else Inl RuntimeError)"

text \<open>
  Elementwise binary operations broadcast their operands: shapes are aligned at the
  last axis and, axis by axis, must be equal or one of them 1.
\<close>

fun broadcast_rev :: "nat list \<Rightarrow> nat list \<Rightarrow> error + nat list" where
  "broadcast_rev [] ys = Inr ys"
| "broadcast_rev xs [] = Inr xs"
| "broadcast_rev (x # xs) (y # ys) =
     (if x = y \<or> y = 1 then map_sum id ((#) x) (broadcast_rev xs ys)
      else if x = 1 then map_sum id ((#) y) (broadcast_rev xs ys)
      else Inl RuntimeError)"

definition broadcast_shapes :: "nat list \<Rightarrow> nat list \<Rightarrow> error + nat list" where
  "broadcast_shapes xs ys = map_sum id rev (broadcast_rev (rev xs) (rev ys))"

definition binop :: "('a \<Rightarrow> 'b \<Rightarrow> 'c) \<Rightarrow> 'a tensor \<Rightarrow> 'b tensor \<Rightarrow> error + 'c tensor" where
  "binop f a b =
     map_sum id
       (\<lambda>sh. \<lparr> shape = sh,
                elems = (\<lambda>idx. f (elems a (broadcast_index (shape a) idx))
                                  (elems b (broadcast_index (shape b) idx))) \<rparr>)
       (broadcast_shapes (shape a) (shape b))"

definition tmap :: "('a \<Rightarrow> 'b) \<Rightarrow> 'a tensor \<Rightarrow> 'b tensor" where
  "tmap f t = \<lparr> shape = shape t, elems = (\<lambda>idx. f (elems t idx)) \<rparr>"

text \<open>\<^verbatim>\<open>t.sum(d)\<close>, for the addition \<open>add\<close> and zero \<open>z\<close> of the element type.\<close>

definition sum_dim :: "('a \<Rightarrow> 'a \<Rightarrow> 'a) \<Rightarrow> 'a \<Rightarrow> nat \<Rightarrow> 'a tensor \<Rightarrow> error + 'a tensor" where
  "sum_dim add z d t =
     (if d < ndim t
      then Inr \<lparr> shape = take d (shape t) @ drop (Suc d) (shape t),
                 elems = (\<lambda>idx. foldl add z
                            (map (\<lambda>k. elems t (take d idx @ [k] @ drop d idx))
                                 [0..<shape t ! d])) \<rparr>
      else Inl IndexError)"

subsection \<open>Floating-point values\<close>

text \<open>
  The entries of a float tensor: a finite value, an infinity or not-a-number, with the
  IEEE rules for the special values.  Finite arithmetic is exact: rounding, overflow
  and the sign of zero are not modelled.
\<close>

datatype tfloat = Fin real | PInf | NInf | NaN

fun fadd :: "tfloat \<Rightarrow> tfloat \<Rightarrow> tfloat" where
  "fadd (Fin x) (Fin y) = Fin (x + y)"
| "fadd NaN y = NaN"
| "fadd x NaN = NaN"
| "fadd PInf NInf = NaN"
| "fadd NInf PInf = NaN"
| "fadd PInf y = PInf"
| "fadd NInf y = NInf"
| "fadd (Fin x) y = y"

text \<open>An infinity of the sign of \<open>s\<close>; not a number when \<open>s = 0\<close>.\<close>

definition signed_inf :: "real \<Rightarrow> tfloat" where
  "signed_inf s = (if s = 0 then NaN else if 0 < s then PInf else NInf)"

fun fmul :: "tfloat \<Rightarrow> tfloat \<Rightarrow> tfloat" where
  "fmul (Fin x) (Fin y) = Fin (x * y)"
| "fmul NaN y = NaN"
| "fmul x NaN = NaN"
| "fmul PInf (Fin y) = signed_inf y"
| "fmul NInf (Fin y) = signed_inf (- y)"
| "fmul (Fin x) PInf = signed_inf x"
| "fmul (Fin x) NInf = signed_inf (- x)"
| "fmul PInf PInf = PInf"
| "fmul NInf NInf = PInf"
| "fmul PInf NInf = NInf"
| "fmul NInf PInf = NInf"

fun fdiv :: "tfloat \<Rightarrow> tfloat \<Rightarrow> tfloat" where
  "fdiv (Fin x) (Fin y) = (if y = 0 then signed_inf x else Fin (x / y))"
| "fdiv NaN y = NaN"
| "fdiv x NaN = NaN"
| "fdiv (Fin x) y = Fin 0"
| "fdiv PInf (Fin y) = (if 0 \<le> y then PInf else NInf)"
| "fdiv NInf (Fin y) = (if 0 \<le> y then NInf else PInf)"
| "fdiv x y = NaN"

fun ftanh :: "tfloat \<Rightarrow> tfloat" where
  "ftanh (Fin x) = Fin (tanh x)"
| "ftanh PInf = Fin 1"
| "ftanh NInf = Fin (- 1)"
| "ftanh NaN = NaN"

definition fsum :: "tfloat list \<Rightarrow> tfloat" where
  "fsum xs = foldl fadd (Fin 0) xs"

text \<open>The conversion of an integer entry to float when it meets a float operand.\<close>

definition to_float :: "int \<Rightarrow> tfloat" where
  "to_float k = Fin (of_int k)"

section \<open>Encoder adapter\<close>

text \<open>
  \<^verbatim>\<open>generalize_encoder_forward_kwargs(encoder, **kwargs)\<close>.  The keyword bag is the
  ordered dict \<^verbatim>\<open>kwargs\<close>, an association list whose values are \<open>None\<close> for Python's
  \<^verbatim>\<open>None\<close>; \<open>params\<close> are the parameter names of \<^verbatim>\<open>encoder.forward\<close> and \<open>cls\<close> is
  \<^verbatim>\<open>encoder.__class__.__name__\<close>.  The loop state is the dict built so far and the
  warnings logged so far; \<^verbatim>\<open>new_kwargs[name] = value\<close> is \<^const>\<open>AList.update\<close>.
\<close>

fun kwargs_loop ::
  "string set \<Rightarrow> string \<Rightarrow> (string \<times> 'v option) list \<Rightarrow>
   (string \<times> 'v option) list \<times> diagnostic list \<Rightarrow>
   (string \<times> 'v option) list \<times> diagnostic list" where
  "kwargs_loop params cls [] st = st"
| "kwargs_loop params cls ((name, v) # rest) (new_kwargs, msgs) =
     (if name \<notin> params \<and> v \<noteq> None
      then kwargs_loop params cls rest (new_kwargs, msgs @ [ParameterNotPresent name cls])
      else if name \<in> params
      then kwargs_loop params cls rest (AList.update name v new_kwargs, msgs)
      else kwargs_loop params cls rest (new_kwargs, msgs))"

definition generalize_encoder_forward_kwargs ::
  "string set \<Rightarrow> string \<Rightarrow> (string \<times> 'v option) list \<Rightarrow>
   (string \<times> 'v option) list \<times> diagnostic list" where
  "generalize_encoder_forward_kwargs params cls kwargs = kwargs_loop params cls kwargs ([], [])"

section \<open>Library modules\<close>

text \<open>
  \<^verbatim>\<open>nn.Dropout\<close>.  Outside training it is the identity.  In training each entry is
  kept with probability \<open>1 - p\<close> and scaled by \<open>1 / (1 - p)\<close>, or zeroed; the draw of
  this call is the field \<open>noise\<close> (true: kept), so that the module is a function of
  its state.
\<close>

record Dropout =
  prob :: real
  training :: bool
  noise :: "nat list \<Rightarrow> bool"

definition Dropout_forward :: "Dropout \<Rightarrow> tfloat tensor \<Rightarrow> tfloat tensor" where
  "Dropout_forward m x =
     (if training m \<and> prob m \<noteq> 0
      then \<lparr> shape = shape x,
             elems = (\<lambda>idx. fmul (elems x idx)
                        (Fin (if prob m \<noteq> 1 \<and> noise m idx then 1 / (1 - prob m) else 0))) \<rparr>
      else x)"

text \<open>
  \<^verbatim>\<open>nn.Linear(in_features, out_features)\<close> acts on the last axis:
  \<open>y[.., o] = sum k. x[.., k] * weight[o, k] + bias[o]\<close>.
\<close>

record Linear =
  in_features :: nat
  out_features :: nat
  weight :: "nat \<Rightarrow> nat \<Rightarrow> tfloat"
  bias :: "nat \<Rightarrow> tfloat"

definition Linear_forward :: "Linear \<Rightarrow> tfloat tensor \<Rightarrow> error + tfloat tensor" where
  "Linear_forward m x =
     (if ndim x = 0 then Inl RuntimeError
      else if last (shape x) \<noteq> in_features m then Inl RuntimeError
      else Inr \<lparr> shape = butlast (shape x) @ [out_features m],
                 elems = (\<lambda>idx. fadd
                            (fsum (map (\<lambda>k. fmul (elems x (butlast idx @ [k]))
                                              (weight m (last idx) k))
                                       [0..<in_features m]))
                            (bias m (last idx))) \<rparr>)"

text \<open>
  \<^verbatim>\<open>torch.matmul(a, b)\<close> for two tensors of the same rank, at least 2, with the same
  leading (batch) axes: the matrix product of the last two axes.  (The broadcasting of
  unequal batch axes is not modelled; the code multiplies two tensors derived from the
  same hidden states.)
\<close>

definition matmul :: "tfloat tensor \<Rightarrow> tfloat tensor \<Rightarrow> error + tfloat tensor" where
  "matmul a b =
     (let n = ndim a in
      if n < 2 \<or> ndim b \<noteq> n then Inl RuntimeError
      else if take (n - 2) (shape a) \<noteq> take (n - 2) (shape b) then Inl RuntimeError
      else if shape a ! (n - 1) \<noteq> shape b ! (n - 2) then Inl RuntimeError
      else Inr \<lparr> shape = take (n - 2) (shape a) @ [shape a ! (n - 2), shape b ! (n - 1)],
                 elems = (\<lambda>idx. fsum (map (\<lambda>k. fmul (elems a (take (n - 1) idx @ [k]))
                                                    (elems b (take (n - 2) idx @ [k, idx ! (n - 1)])))
                                            [0..<shape a ! (n - 1)])) \<rparr>)"

section \<open>Classification head\<close>

text \<open>\<^verbatim>\<open>ClassificationHead\<close>: dropout, then the projection to the label space.\<close>

record ClassificationHead =
  ch_dropout :: Dropout
  out_proj :: Linear

definition ClassificationHead_forward ::
  "ClassificationHead \<Rightarrow> tfloat tensor \<Rightarrow> error + tfloat tensor" where
  "ClassificationHead_forward m features =
     (let x = Dropout_forward (ch_dropout m) features in
      Linear_forward (out_proj m) x)"

section \<open>Representation projection\<close>

text \<open>
  \<^verbatim>\<open>RepresentationProjectionLayer\<close>.  \<open>dense\<close> is \<^verbatim>\<open>nn.Identity()\<close> or a
  \<^verbatim>\<open>nn.Linear\<close>; the attributes of the relation mode exist only when the layer was
  constructed with \<^verbatim>\<open>relations=True\<close>.
\<close>

datatype dense_module = Identity | Dense Linear

record relation_attrs =
  num_attention_heads :: nat
  attention_head_size :: nat
  all_head_size :: nat
  query :: Linear
  key :: Linear

record RepresentationProjectionLayer =
  dropout :: Dropout
  dense :: dense_module
  layer_to_use :: int
  tokens :: bool
  tagger :: bool
  relations :: bool
  hidden_size :: nat
  rel_attrs :: "relation_attrs option"

subsection \<open>Construction\<close>

text \<open>
  \<^verbatim>\<open>CnlpConfig\<close>, the fields the model reads.  \<open>config_hidden_size\<close> and
  \<open>hidden_dropout_prob\<close> are the values copied from the encoder's configuration;
  the sizes and counts are Python integers.
\<close>

record CnlpConfig =
  finetuning_task :: "string list"
  config_layer :: int
  config_tokens :: bool
  num_rel_attention_heads :: int
  rel_attention_head_dims :: int
  config_tagger :: "string \<rightharpoonup> bool"
  config_relations :: "string \<rightharpoonup> bool"
  config_use_prior_tasks :: bool
  config_label_dictionary :: "(string \<times> string list) list"
  hidden_dropout_prob :: real
  config_hidden_size :: int

text \<open>
  The state of the library modules that \<^verbatim>\<open>__init__\<close> creates and that its arguments
  do not determine: the initial weights and the dropout noise.
\<close>

record layer_init =
  init_noise :: "nat list \<Rightarrow> bool"
  dense_weight :: "nat \<Rightarrow> nat \<Rightarrow> tfloat"
  dense_bias :: "nat \<Rightarrow> tfloat"
  query_weight :: "nat \<Rightarrow> nat \<Rightarrow> tfloat"
  query_bias :: "nat \<Rightarrow> tfloat"
  key_weight :: "nat \<Rightarrow> nat \<Rightarrow> tfloat"
  key_bias :: "nat \<Rightarrow> tfloat"

text \<open>
  The constructors of the library modules.  \<^verbatim>\<open>nn.Dropout(p)\<close> raises \<open>ValueError\<close>
  when \<open>p\<close> is outside \<open>[0, 1]\<close>; a new module is in training mode.
  \<^verbatim>\<open>nn.Linear(in_features, out_features)\<close> allocates a weight of shape
  \<open>(out_features, in_features)\<close> and raises \<open>RuntimeError\<close> when a size is negative.
\<close>

definition nn_Dropout :: "real \<Rightarrow> (nat list \<Rightarrow> bool) \<Rightarrow> error + Dropout" where
  "nn_Dropout pr nz =
     (if pr < 0 \<or> 1 < pr then Inl ValueError
      else Inr \<lparr> prob = pr, training = True, noise = nz \<rparr>)"

definition nn_Linear ::
  "int \<Rightarrow> int \<Rightarrow> (nat \<Rightarrow> nat \<Rightarrow> tfloat) \<Rightarrow> (nat \<Rightarrow> tfloat) \<Rightarrow> error + Linear" where
  "nn_Linear n_in n_out w b =
     (if n_in < 0 \<or> n_out < 0 then Inl RuntimeError
      else Inr \<lparr> in_features = nat n_in, out_features = nat n_out, weight = w, bias = b \<rparr>)"

text \<open>
  \<^verbatim>\<open>RepresentationProjectionLayer.__init__\<close>, statement by statement: the dropout
  module, the dense module, the attributes, the check of the head count, the relation
  attributes with their two linear modules, the check of the token flag.  The sizes
  stored in a layer that was constructed are not negative, so the layer holds them as
  natural numbers.
\<close>

definition RepresentationProjectionLayer_init ::
  "CnlpConfig \<Rightarrow> layer_init \<Rightarrow> int \<Rightarrow> bool \<Rightarrow> bool \<Rightarrow> bool \<Rightarrow> int \<Rightarrow> int \<Rightarrow>
   error + RepresentationProjectionLayer" where
  "RepresentationProjectionLayer_init config init layer tokens_arg tagger_arg relations_arg
       num_heads head_size =
     ebind (nn_Dropout (hidden_dropout_prob config) (init_noise init)) (\<lambda>dropout_m.
     ebind (if relations_arg then Inr Identity
            else ebind (nn_Linear (config_hidden_size config)
                          (config_hidden_size config) (dense_weight init) (dense_bias init))
                   (\<lambda>lin. Inr (Dense lin))) (\<lambda>dense_m.
     let self = \<lparr> dropout = dropout_m,
                  dense = dense_m,
                  layer_to_use = layer,
                  tokens = tokens_arg,
                  tagger = tagger_arg,
                  relations = relations_arg,
                  hidden_size = nat (config_hidden_size config),
                  rel_attrs = None \<rparr>
     in
     if num_heads \<le> 0 \<and> relations_arg then
       Inl (PyException
         ''Inconsistent configuration: num_attention_heads must be > 0 for relations'')
     else
       ebind (if relations_arg then
                let all_heads = num_heads * head_size in
                ebind (nn_Linear (config_hidden_size config) all_heads
                         (query_weight init) (query_bias init)) (\<lambda>q.
                ebind (nn_Linear (config_hidden_size config) all_heads
                         (key_weight init) (key_bias init)) (\<lambda>k.
                Inr (self \<lparr> rel_attrs := Some
                       \<lparr> num_attention_heads = nat num_heads,
                         attention_head_size = nat head_size,
                         all_head_size = nat all_heads,
                         query = q,
                         key = k \<rparr> \<rparr>)))
              else Inr self) (\<lambda>self.
       if tokens_arg \<and> (tagger_arg \<or> relations_arg) then
         Inl (PyException
           ''Inconsistent configuration: tokens cannot be true in tagger or relation mode'')
       else Inr self)))"

subsection \<open>Feature extraction\<close>

text \<open>\<^verbatim>\<open>transpose_for_scores\<close>: split the last axis into heads, then move the heads forward.\<close>

definition transpose_for_scores :: "relation_attrs \<Rightarrow> tfloat tensor \<Rightarrow> error + tfloat tensor" where
  "transpose_for_scores self x =
     (let new_x_shape = butlast (shape x) @ [num_attention_heads self, attention_head_size self] in
      ebind (view (map int new_x_shape) x) (\<lambda>x.
      permute [0, 2, 1, 3] x))"

text \<open>
  The three mode-specific branches of \<^verbatim>\<open>forward\<close>, each the value of \<open>x\<close> when the
  branch ends.
\<close>

definition pool_event_tokens ::
  "RepresentationProjectionLayer \<Rightarrow> tfloat tensor list \<Rightarrow> int tensor option \<Rightarrow> nat \<Rightarrow>
   error + tfloat tensor" where
  "pool_event_tokens self features event_tokens seq_length =
     (case event_tokens of
        None \<Rightarrow> Inl AttributeError
      | Some event_tokens \<Rightarrow>
          ebind (sum_dim (+) 0 1 event_tokens) (\<lambda>event_toks_per_seq.
          ebind (unsqueeze 2 event_tokens) (\<lambda>u.
          ebind (py_getitem features 0) (\<lambda>f0.
          ebind (shape_at f0 0) (\<lambda>batch.
          ebind (expand [batch, seq_length, hidden_size self] u) (\<lambda>expanded_tokens.
          ebind (py_getitem features (layer_to_use self)) (\<lambda>fl.
          ebind (binop (\<lambda>v m. fmul v (to_float m)) fl expanded_tokens) (\<lambda>filtered_features.
          ebind (sum_dim fadd (Fin 0) 1 filtered_features) (\<lambda>total.
          ebind (unsqueeze 1 event_toks_per_seq) (\<lambda>c.
          ebind (expand [batch, hidden_size self] c) (\<lambda>count.
          binop (\<lambda>v m. fdiv v (to_float m)) total count)))))))))))"

definition relation_scores ::
  "RepresentationProjectionLayer \<Rightarrow> tfloat tensor list \<Rightarrow> error + tfloat tensor" where
  "relation_scores self features =
     (case rel_attrs self of
        None \<Rightarrow> Inl AttributeError
      | Some attrs \<Rightarrow>
          ebind (py_getitem features (layer_to_use self)) (\<lambda>hidden_states.
          ebind (Linear_forward (key attrs) hidden_states) (\<lambda>k.
          ebind (transpose_for_scores attrs k) (\<lambda>key_layer.
          ebind (Linear_forward (query attrs) hidden_states) (\<lambda>q.
          ebind (transpose_for_scores attrs q) (\<lambda>query_layer.
          ebind (transpose_last2 key_layer) (\<lambda>key_t.
          ebind (matmul query_layer key_t) (\<lambda>attention_scores.
          let x = tmap (\<lambda>v. fdiv v (Fin (sqrt (real (attention_head_size attrs)))))
                    attention_scores
          in permute [0, 2, 3, 1] x))))))))"

definition cls_token :: "RepresentationProjectionLayer \<Rightarrow> tfloat tensor list \<Rightarrow> error + tfloat tensor" where
  "cls_token self features =
     ebind (py_getitem features (layer_to_use self)) (\<lambda>fl. getitem_ellipsis [At 0, All] fl)"

text \<open>The three statements after the branches, run in every mode.\<close>

definition post_process :: "RepresentationProjectionLayer \<Rightarrow> tfloat tensor \<Rightarrow> error + tfloat tensor" where
  "post_process self x =
     (let x = Dropout_forward (dropout self) x in
      ebind (case dense self of Identity \<Rightarrow> Inr x | Dense lin \<Rightarrow> Linear_forward lin x) (\<lambda>x.
      Inr (tmap ftanh x)))"

definition RepresentationProjectionLayer_forward ::
  "RepresentationProjectionLayer \<Rightarrow> tfloat tensor list \<Rightarrow> int tensor option \<Rightarrow>
   error + tfloat tensor" where
  "RepresentationProjectionLayer_forward self features event_tokens =
     ebind (py_getitem features 0) (\<lambda>f0.
     ebind (shape_at f0 1) (\<lambda>seq_length.
     ebind (if tokens self then pool_event_tokens self features event_tokens seq_length
            else if tagger self then py_getitem features (layer_to_use self)
            else if relations self then relation_scores self features
            else cls_token self features) (\<lambda>x.
     post_process self x)))"

section \<open>Cross-task fan-in\<close>

text \<open>
  \<^verbatim>\<open>CnlpModelForClassification.predict_relations_with_previous_logits\<close>.
  \<open>fan_in_step\<close> is one iteration of the loop over the prior tasks' logits; the state
  is the feature tensor and the warnings logged.  \<^verbatim>\<open>seq_len\<close> is read once, before
  the loop.
\<close>

definition fan_in_step ::
  "nat \<Rightarrow> 'a tensor \<times> diagnostic list \<Rightarrow> 'a tensor \<Rightarrow> error + ('a tensor \<times> diagnostic list)" where
  "fan_in_step seq_len st prior_task_logits =
     (let (features, msgs) = st in
      if ndim features = 4 then
        if ndim prior_task_logits = 3 then
          ebind (unsqueeze 2 prior_task_logits) (\<lambda>aug.
          ebind (repeat [1, 1, seq_len, 1] aug) (\<lambda>aug.
          ebind (cat features aug 3) (\<lambda>features.
          Inr (features, msgs))))
        else Inr (features, msgs @ [RelationFanInNotImplemented (shape prior_task_logits)])
      else if ndim features = 3 then
        Inr (features, msgs @ [SequenceFanInNotImplemented])
      else Inr (features, msgs))"

fun fan_in_loop ::
  "nat \<Rightarrow> 'a tensor \<times> diagnostic list \<Rightarrow> 'a tensor list \<Rightarrow> error + ('a tensor \<times> diagnostic list)" where
  "fan_in_loop seq_len st [] = Inr st"
| "fan_in_loop seq_len st (l # ls) =
     ebind (fan_in_step seq_len st l) (\<lambda>st'. fan_in_loop seq_len st' ls)"

definition predict_relations_with_previous_logits ::
  "'a tensor \<Rightarrow> 'a tensor list \<Rightarrow> error + ('a tensor \<times> diagnostic list)" where
  "predict_relations_with_previous_logits features logits =
     ebind (shape_at features 1) (\<lambda>seq_len. fan_in_loop seq_len (features, []) logits)"

section \<open>Loss functions and loss state\<close>

text \<open>
  \<^verbatim>\<open>MSELoss()\<close> and \<^verbatim>\<open>CrossEntropyLoss(weight=class_weights)\<close> are library
  functions from a prediction and a target to a scalar, which raise on operands they
  do not accept; they are parameters of the model.  \<open>CrossEntropyLoss\<close> stands for
  the call with its target converted by \<^verbatim>\<open>.type(torch.LongTensor).to(labels.device)\<close>.
  \<open>'l\<close> is the element type of the label tensor.
\<close>

record 'l loss_functions =
  MSELoss :: "tfloat tensor \<Rightarrow> 'l tensor \<Rightarrow> error + tfloat"
  CrossEntropyLoss :: "real list option \<Rightarrow> tfloat tensor \<Rightarrow> 'l tensor \<Rightarrow> error + tfloat"

text \<open>The dict \<^verbatim>\<open>state\<close>: the running loss and the cursor into the label tensor.\<close>

record LossState =
  loss :: "tfloat option"
  task_label_ind :: nat

section \<open>The encoder and the model\<close>

text \<open>
  The encoder is opaque: its class name, the parameter names of its \<^verbatim>\<open>forward\<close>,
  its depth, and the function it computes from the token ids and the keyword
  arguments.
\<close>

datatype kwarg = PyBool bool | PyTensor "tfloat tensor" | PyIntTensor "int tensor"

record EncoderOutput =
  hidden_states :: "tfloat tensor list"
  attentions :: "tfloat tensor list option"

record Encoder =
  class_name :: string
  forward_params :: "string set"
  num_layers :: nat
  encoder_call :: "int tensor option \<Rightarrow> (string \<times> kwarg option) list \<Rightarrow> error + EncoderOutput"

text \<open>
  \<^verbatim>\<open>CnlpModelForClassification\<close>.  The two \<^verbatim>\<open>nn.ModuleDict\<close>s and the label
  dictionary are ordered dicts; \<open>model_tagger\<close> and \<open>model_relations\<close> are
  \<^verbatim>\<open>self.tagger\<close> and \<^verbatim>\<open>self.relations\<close>.
\<close>

record CnlpModelForClassification =
  encoder :: Encoder
  tasks :: "string list"
  feature_extractors :: "(string \<times> RepresentationProjectionLayer) list"
  classifiers :: "(string \<times> ClassificationHead) list"
  model_tagger :: "string \<rightharpoonup> bool"
  model_relations :: "string \<rightharpoonup> bool"
  class_weights :: "string \<rightharpoonup> real list option"
  label_dictionary :: "(string \<times> string list) list"
  final_task_weight :: real
  use_prior_tasks :: bool
  model_training :: bool

section \<open>Loss computation per task\<close>

text \<open>
  The value of \<^verbatim>\<open>task_labels\<close> in each of the three classification-like branches of
  \<^verbatim>\<open>compute_loss\<close>.
\<close>

definition relation_task_labels :: "'l tensor \<Rightarrow> LossState \<Rightarrow> nat \<Rightarrow> error + 'l tensor" where
  "relation_task_labels labels state seq_len =
     getitem [All, All, Range (task_label_ind state) (task_label_ind state + seq_len)] labels"

definition tagging_task_labels :: "'l tensor \<Rightarrow> LossState \<Rightarrow> error + 'l tensor" where
  "tagging_task_labels labels state =
     (if ndim labels = 2 then Inr labels
      else if ndim labels = 3 then getitem [All, All, At (task_label_ind state)] labels
      else getitem [All, At 0, At (task_label_ind state), All] labels)"

definition classification_task_labels :: "'l tensor \<Rightarrow> nat \<Rightarrow> error + 'l tensor" where
  "classification_task_labels labels task_ind =
     (if ndim labels = 1 then Inr labels
      else if ndim labels = 2 then getitem [All, At task_ind] labels
      else if ndim labels = 3 then getitem [All, At 0, At task_ind] labels
      else Inl NotImplementedError)"

text \<open>
  The first part of \<^verbatim>\<open>compute_loss\<close>: the task's loss and the state with the cursor
  advanced.
\<close>

definition task_loss_and_cursor ::
  "'l loss_functions \<Rightarrow> CnlpModelForClassification \<Rightarrow> string \<Rightarrow> tfloat tensor \<Rightarrow> 'l tensor \<Rightarrow>
   nat \<Rightarrow> nat \<Rightarrow> nat \<Rightarrow> nat \<Rightarrow> LossState \<Rightarrow> error + (tfloat \<times> LossState)" where
  "task_loss_and_cursor fns self task_name task_logits labels task_ind task_num_labels
       batch_size seq_len state =
     (if task_num_labels = 1 then
        ebind (view [- 1] task_logits) (\<lambda>a.
        ebind (view [- 1] labels) (\<lambda>b.
        ebind (MSELoss fns a b) (\<lambda>task_loss.
        Inr (task_loss, state))))
      else
        ebind (py_lookup (class_weights self) task_name) (\<lambda>cw.
        ebind (py_lookup (model_relations self) task_name) (\<lambda>is_relation.
        if is_relation then
          ebind (relation_task_labels labels state seq_len) (\<lambda>task_labels.
          let state = state \<lparr> task_label_ind := task_label_ind state + seq_len \<rparr> in
          ebind (permute [0, 3, 1, 2] task_logits) (\<lambda>a.
          ebind (CrossEntropyLoss fns cw a task_labels) (\<lambda>task_loss.
          Inr (task_loss, state))))
        else
          ebind (py_lookup (model_tagger self) task_name) (\<lambda>is_tagger.
          if is_tagger then
            ebind (tagging_task_labels labels state) (\<lambda>task_labels.
            let state = state \<lparr> task_label_ind := task_label_ind state + 1 \<rparr> in
            ebind (view [- 1, int task_num_labels] task_logits) (\<lambda>a.
            ebind (reshape [batch_size * seq_len] task_labels) (\<lambda>b.
            ebind (CrossEntropyLoss fns cw a b) (\<lambda>task_loss.
            Inr (task_loss, state)))))
          else
            ebind (classification_task_labels labels task_ind) (\<lambda>task_labels.
            let state = state \<lparr> task_label_ind := task_label_ind state + 1 \<rparr> in
            ebind (CrossEntropyLoss fns cw task_logits task_labels) (\<lambda>task_loss.
            Inr (task_loss, state)))))))"

text \<open>The last statement of \<^verbatim>\<open>compute_loss\<close>: folding the task's loss into the state.\<close>

definition accumulate_loss ::
  "CnlpModelForClassification \<Rightarrow> nat \<Rightarrow> tfloat \<Rightarrow> LossState \<Rightarrow> LossState" where
  "accumulate_loss self task_ind task_loss state =
     (case loss state of
        None \<Rightarrow> state \<lparr> loss := Some task_loss \<rparr>
      | Some running \<Rightarrow>
          let task_weight = (if task_ind + 1 < length (tasks self) then 1
                             else final_task_weight self)
          in state \<lparr> loss := Some (fadd running (fmul (Fin task_weight) task_loss)) \<rparr>)"

definition compute_loss ::
  "'l loss_functions \<Rightarrow> CnlpModelForClassification \<Rightarrow> tfloat tensor \<Rightarrow> 'l tensor \<Rightarrow>
   nat \<Rightarrow> nat \<Rightarrow> nat \<Rightarrow> nat \<Rightarrow> LossState \<Rightarrow> error + LossState" where
  "compute_loss fns self task_logits labels task_ind task_num_labels batch_size seq_len state =
     ebind (py_getitem (tasks self) (int task_ind)) (\<lambda>task_name.
     ebind (task_loss_and_cursor fns self task_name task_logits labels task_ind task_num_labels
              batch_size seq_len state) (\<lambda>(task_loss, state).
     Inr (accumulate_loss self task_ind task_loss state)))"

section \<open>The forward pass\<close>

record 'l forward_inputs =
  input_ids :: "int tensor option"
  attention_mask :: "kwarg option"
  token_type_ids :: "kwarg option"
  position_ids :: "kwarg option"
  head_mask :: "kwarg option"
  inputs_embeds :: "kwarg option"
  labels_arg :: "'l tensor option"
  output_attentions :: "kwarg option"
  event_tokens_arg :: "int tensor option"

record SequenceClassifierOutput =
  out_loss :: "tfloat option"
  out_logits :: "tfloat tensor list"
  out_hidden_states :: "tfloat tensor list option"
  out_attentions :: "tfloat tensor list option"

text \<open>
  The logits of one task given the logits of the tasks before it: feature extraction,
  fan-in when enabled and the task is a relation task, classification head.
\<close>

definition task_logits_of ::
  "CnlpModelForClassification \<Rightarrow> tfloat tensor list \<Rightarrow> int tensor option \<Rightarrow> tfloat tensor list \<Rightarrow>
   string \<Rightarrow> error + (tfloat tensor \<times> diagnostic list)" where
  "task_logits_of self hidden event_tokens logits task_name =
     ebind (py_lookup (map_of (feature_extractors self)) task_name) (\<lambda>extractor.
     ebind (RepresentationProjectionLayer_forward extractor hidden event_tokens) (\<lambda>features.
     ebind (if use_prior_tasks self then
              ebind (py_lookup (model_relations self) task_name) (\<lambda>is_relation.
              if is_relation then predict_relations_with_previous_logits features logits
              else Inr (features, []))
            else Inr (features, [])) (\<lambda>(features, msgs).
     ebind (py_lookup (map_of (classifiers self)) task_name) (\<lambda>head.
     ebind (ClassificationHead_forward head features) (\<lambda>task_logits.
     Inr (task_logits, msgs))))))"

text \<open>
  One iteration of the loop over \<^verbatim>\<open>enumerate(self.tasks)\<close>; the loop state is the list
  of logits, the loss state and the warnings logged.
\<close>

definition task_step ::
  "'l loss_functions \<Rightarrow> CnlpModelForClassification \<Rightarrow> tfloat tensor list \<Rightarrow> int tensor option \<Rightarrow>
   'l tensor option \<Rightarrow> nat \<Rightarrow> nat \<Rightarrow>
   tfloat tensor list \<times> LossState \<times> diagnostic list \<Rightarrow> nat \<times> string \<Rightarrow>
   error + (tfloat tensor list \<times> LossState \<times> diagnostic list)" where
  "task_step fns self hidden event_tokens labels batch_size seq_len st task =
     (let (logits, state, msgs) = st; (task_ind, task_name) = task in
      ebind (py_lookup (map_of (label_dictionary self)) task_name) (\<lambda>task_labels.
      ebind (task_logits_of self hidden event_tokens logits task_name) (\<lambda>(task_logits, new_msgs).
      let logits = logits @ [task_logits] in
      ebind (case labels of
               None \<Rightarrow> Inr state
             | Some labels \<Rightarrow>
                 compute_loss fns self task_logits labels task_ind (length task_labels)
                   batch_size seq_len state) (\<lambda>state.
      Inr (logits, state, msgs @ new_msgs)))))"

fun task_loop ::
  "'l loss_functions \<Rightarrow> CnlpModelForClassification \<Rightarrow> tfloat tensor list \<Rightarrow> int tensor option \<Rightarrow>
   'l tensor option \<Rightarrow> nat \<Rightarrow> nat \<Rightarrow>
   tfloat tensor list \<times> LossState \<times> diagnostic list \<Rightarrow> (nat \<times> string) list \<Rightarrow>
   error + (tfloat tensor list \<times> LossState \<times> diagnostic list)" where
  "task_loop fns self hidden event_tokens labels batch_size seq_len st [] = Inr st"
| "task_loop fns self hidden event_tokens labels batch_size seq_len st (task # rest) =
     ebind (task_step fns self hidden event_tokens labels batch_size seq_len st task) (\<lambda>st'.
     task_loop fns self hidden event_tokens labels batch_size seq_len st' rest)"

definition forward ::
  "'l loss_functions \<Rightarrow> CnlpModelForClassification \<Rightarrow> 'l forward_inputs \<Rightarrow>
   error + (SequenceClassifierOutput \<times> diagnostic list)" where
  "forward fns self inputs =
     (let (kwargs, msgs) =
            generalize_encoder_forward_kwargs
              (forward_params (encoder self)) (class_name (encoder self))
              [(''attention_mask'', attention_mask inputs),
               (''token_type_ids'', token_type_ids inputs),
               (''position_ids'', position_ids inputs),
               (''head_mask'', head_mask inputs),
               (''inputs_embeds'', inputs_embeds inputs),
               (''output_attentions'', output_attentions inputs),
               (''output_hidden_states'', Some (PyBool True)),
               (''return_dict'', Some (PyBool True))]
      in
      ebind (encoder_call (encoder self) (input_ids inputs) kwargs) (\<lambda>outputs.
      ebind (case input_ids inputs of
               None \<Rightarrow> Inl AttributeError
             | Some ids \<Rightarrow>
                 if ndim ids = 2 then Inr (shape ids ! 0, shape ids ! 1) else Inl ValueError)
        (\<lambda>(batch_size, seq_len).
      ebind (task_loop fns self (hidden_states outputs) (event_tokens_arg inputs)
               (labels_arg inputs) batch_size seq_len
               ([], \<lparr> loss = None, task_label_ind = 0 \<rparr>, msgs)
               (zip [0..<length (tasks self)] (tasks self))) (\<lambda>(logits, state, msgs).
      Inr (\<lparr> out_loss = loss state,
              out_logits = logits,
              out_hidden_states =
                (if model_training self then Some (hidden_states outputs) else None),
              out_attentions = attentions outputs \<rparr>, msgs)))))"

section \<open>Model construction\<close>

record head_init =
  head_noise :: "nat list \<Rightarrow> bool"
  out_proj_weight :: "nat \<Rightarrow> nat \<Rightarrow> tfloat"
  out_proj_bias :: "nat \<Rightarrow> tfloat"

text \<open>\<^verbatim>\<open>ClassificationHead.__init__\<close>.\<close>

definition ClassificationHead_init ::
  "CnlpConfig \<Rightarrow> head_init \<Rightarrow> nat \<Rightarrow> int \<Rightarrow> error + ClassificationHead" where
  "ClassificationHead_init config init num_labels hidden_size_arg =
     ebind (nn_Dropout (hidden_dropout_prob config) (head_noise init)) (\<lambda>dropout_m.
     ebind (nn_Linear
              (if hidden_size_arg < 0 then config_hidden_size config else hidden_size_arg)
              (int num_labels) (out_proj_weight init) (out_proj_bias init)) (\<lambda>lin.
     Inr \<lparr> ch_dropout = dropout_m, out_proj = lin \<rparr>))"

text \<open>
  The assignment \<^verbatim>\<open>d[name] = module\<close> to an \<^verbatim>\<open>nn.ModuleDict\<close>, which registers the
  module under \<open>name\<close> as a submodule of the dict.  It raises \<open>KeyError\<close> when \<open>name\<close>
  is already an attribute of the dict other than a registered module, contains a dot,
  or is empty.  The attribute names of an \<^verbatim>\<open>nn.ModuleDict\<close> (its methods and fields,
  such as \<^verbatim>\<open>type\<close>, \<^verbatim>\<open>keys\<close> or \<^verbatim>\<open>training\<close>) belong to the library and are the
  parameter \<open>module_attrs\<close>.
\<close>

definition ModuleDict_setitem ::
  "string set \<Rightarrow> (string \<times> 'm) list \<Rightarrow> string \<Rightarrow> 'm \<Rightarrow> error + (string \<times> 'm) list" where
  "ModuleDict_setitem module_attrs modules name new_module =
     (if name \<in> module_attrs \<and> name \<notin> fst ` set modules then Inl KeyError
      else if CHR ''.'' \<in> set name then Inl KeyError
      else if name = [] then Inl KeyError
      else Inr (AList.update name new_module modules))"

text \<open>
  One iteration of the loop over \<^verbatim>\<open>config.label_dictionary.items()\<close>; the loop state
  is the two module dicts and \<^verbatim>\<open>total_prev_task_labels\<close>.
\<close>

definition init_task ::
  "string set \<Rightarrow> CnlpConfig \<Rightarrow> (string \<Rightarrow> layer_init \<times> head_init) \<Rightarrow>
   (string \<times> RepresentationProjectionLayer) list \<times> (string \<times> ClassificationHead) list \<times> nat \<Rightarrow>
   string \<times> string list \<Rightarrow>
   error + ((string \<times> RepresentationProjectionLayer) list \<times> (string \<times> ClassificationHead) list \<times> nat)" where
  "init_task module_attrs config inits st item =
     (let (extractors, heads, total_prev_task_labels) = st;
          (task_name, task_labels) = item;
          task_num_labels = length task_labels
      in
      ebind (py_lookup (config_tagger config) task_name) (\<lambda>is_tagger.
      ebind (py_lookup (config_relations config) task_name) (\<lambda>is_relation.
      ebind (RepresentationProjectionLayer_init config (fst (inits task_name))
               (config_layer config) (config_tokens config) is_tagger is_relation
               (num_rel_attention_heads config) (rel_attention_head_dims config)) (\<lambda>extractor.
      ebind (ModuleDict_setitem module_attrs extractors task_name extractor) (\<lambda>extractors.
      ebind (if is_relation then
               let hidden_size_arg = num_rel_attention_heads config +
                     (if config_use_prior_tasks config then int total_prev_task_labels else 0)
               in ClassificationHead_init config (snd (inits task_name)) task_num_labels
                    hidden_size_arg
             else ClassificationHead_init config (snd (inits task_name)) task_num_labels (- 1))
        (\<lambda>head.
      ebind (ModuleDict_setitem module_attrs heads task_name head) (\<lambda>heads.
      Inr (extractors, heads, total_prev_task_labels + task_num_labels))))))))"

fun init_loop ::
  "string set \<Rightarrow> CnlpConfig \<Rightarrow> (string \<Rightarrow> layer_init \<times> head_init) \<Rightarrow>
   (string \<times> RepresentationProjectionLayer) list \<times> (string \<times> ClassificationHead) list \<times> nat \<Rightarrow>
   (string \<times> string list) list \<Rightarrow>
   error + ((string \<times> RepresentationProjectionLayer) list \<times> (string \<times> ClassificationHead) list \<times> nat)" where
  "init_loop module_attrs config inits st [] = Inr st"
| "init_loop module_attrs config inits st (item # rest) =
     ebind (init_task module_attrs config inits st item) (\<lambda>st'.
     init_loop module_attrs config inits st' rest)"

text \<open>
  \<^verbatim>\<open>CnlpModelForClassification.__init__\<close>, from the point where the encoder has been
  loaded.  Freezing encoder weights changes no value the forward pass computes and
  is left out.
\<close>

definition CnlpModelForClassification_init ::
  "string set \<Rightarrow> CnlpConfig \<Rightarrow> Encoder \<Rightarrow> (string \<Rightarrow> layer_init \<times> head_init) \<Rightarrow>
   (string \<rightharpoonup> real list option) option \<Rightarrow> real \<Rightarrow> error + CnlpModelForClassification" where
  "CnlpModelForClassification_init module_attrs config enc inits class_weights_arg
       final_task_weight_arg =
     (if config_layer config > int (num_layers enc) then Inl ValueError
      else
        ebind (init_loop module_attrs config inits ([], [], 0) (config_label_dictionary config))
          (\<lambda>(extractors, heads, total).
        Inr \<lparr> encoder = enc,
              tasks = finetuning_task config,
              feature_extractors = extractors,
              classifiers = heads,
              model_tagger = config_tagger config,
              model_relations = config_relations config,
              class_weights = (case class_weights_arg of
                                 None \<Rightarrow> map_of (map (\<lambda>x. (x, None))
                                            (map fst (config_label_dictionary config)))
                               | Some cw \<Rightarrow> cw),
              label_dictionary = config_label_dictionary config,
              final_task_weight = final_task_weight_arg,
              use_prior_tasks = config_use_prior_tasks config,
              model_training = True \<rparr>))"

section \<open>Example inputs\<close>

text \<open>
  A relation grid for one example of two tokens with one head, all entries 0, and the
  logits of a prior tagging task with one label whose logit for token \<open>s\<close> is \<open>s\<close>;
  the logits of a prior sentence-level task (rank 2); a per-token feature (rank 3).
\<close>

definition fanin_features :: "int tensor" where
  "fanin_features = \<lparr> shape = [1, 2, 2, 1], elems = (\<lambda>idx. 0) \<rparr>"

definition fanin_prior :: "int tensor" where
  "fanin_prior = \<lparr> shape = [1, 2, 1], elems = (\<lambda>idx. int (idx ! 1)) \<rparr>"

definition fanin_prior_cls :: "int tensor" where
  "fanin_prior_cls = \<lparr> shape = [1, 3], elems = (\<lambda>idx. 7) \<rparr>"

definition fanin_seq_features :: "int tensor" where
  "fanin_seq_features = \<lparr> shape = [1, 2, 5], elems = (\<lambda>idx. 0) \<rparr>"

text \<open>A keyword bag and the parameter names of an encoder without token type ids.\<close>

definition kwargs_example :: "(string \<times> nat option) list" where
  "kwargs_example =
     [(''attention_mask'', Some 1), (''token_type_ids'', Some 2), (''position_ids'', None),
      (''head_mask'', None), (''return_dict'', Some 3)]"

definition params_example :: "string set" where
  "params_example = {''input_ids'', ''attention_mask'', ''head_mask'', ''return_dict''}"

text \<open>
  Stand-ins for the two loss functions that expose which labels they are given: the
  squared error is constantly 0, and the cross-entropy is 10 when the first label it
  is given is class 0 and 20 otherwise.  A model whose heads are sentence-level, in
  evaluation mode, over an encoder that returns two layers of zeros for one example
  of two tokens; a label tensor for one example whose column 0 holds class 0 and
  whose column 1 holds class 1.
\<close>

definition probe_losses :: "int loss_functions" where
  "probe_losses =
     \<lparr> MSELoss = (\<lambda>a b. Inr (Fin 0)),
       CrossEntropyLoss = (\<lambda>cw a b. Inr (Fin (if elems b [0] = 0 then 10 else 20))) \<rparr>"

definition example_dropout :: Dropout where
  "example_dropout = \<lparr> prob = 1 / 10, training = False, noise = (\<lambda>idx. True) \<rparr>"

definition example_linear :: "nat \<Rightarrow> nat \<Rightarrow> Linear" where
  "example_linear n_in n_out =
     \<lparr> in_features = n_in, out_features = n_out,
       weight = (\<lambda>out k. Fin 1), bias = (\<lambda>out. Fin 0) \<rparr>"

definition example_extractor :: RepresentationProjectionLayer where
  "example_extractor =
     \<lparr> dropout = example_dropout, dense = Dense (example_linear 1 1), layer_to_use = - 1,
       tokens = False, tagger = False, relations = False, hidden_size = 1, rel_attrs = None \<rparr>"

definition example_head :: "nat \<Rightarrow> ClassificationHead" where
  "example_head n = \<lparr> ch_dropout = example_dropout, out_proj = example_linear 1 n \<rparr>"

definition example_hidden :: "tfloat tensor" where
  "example_hidden = \<lparr> shape = [1, 2, 1], elems = (\<lambda>idx. Fin 0) \<rparr>"

definition example_encoder :: Encoder where
  "example_encoder =
     \<lparr> class_name = ''BertModel'',
       forward_params = {''input_ids'', ''attention_mask'', ''token_type_ids'', ''position_ids'',
         ''head_mask'', ''inputs_embeds'', ''output_attentions'', ''output_hidden_states'',
         ''return_dict''},
       num_layers = 1,
       encoder_call = (\<lambda>ids kwargs.
         Inr \<lparr> hidden_states = [example_hidden, example_hidden], attentions = None \<rparr>) \<rparr>"

definition example_model :: "string list \<Rightarrow> real \<Rightarrow> CnlpModelForClassification" where
  "example_model ts w =
     \<lparr> encoder = example_encoder,
       tasks = ts,
       feature_extractors = [(''reg'', example_extractor), (''cls'', example_extractor)],
       classifiers = [(''reg'', example_head 1), (''cls'', example_head 2)],
       model_tagger = [''reg'' \<mapsto> False, ''cls'' \<mapsto> False],
       model_relations = [''reg'' \<mapsto> False, ''cls'' \<mapsto> False],
       class_weights = [''reg'' \<mapsto> None, ''cls'' \<mapsto> None],
       label_dictionary = [(''reg'', [''value'']), (''cls'', [''no'', ''yes''])],
       final_task_weight = w,
       use_prior_tasks = False,
       model_training = False \<rparr>"

definition example_labels :: "int tensor" where
  "example_labels = \<lparr> shape = [1, 2], elems = (\<lambda>idx. if idx ! 1 = 0 then 0 else 1) \<rparr>"

definition example_logits :: "tfloat tensor" where
  "example_logits = \<lparr> shape = [1, 2], elems = (\<lambda>idx. Fin 0) \<rparr>"

text \<open>
  A token-pooling layer and a relation layer in evaluation mode, with all weights 1
  and all biases 0.  One example of two tokens with hidden values 2 and 4, a mask that
  selects both tokens and a mask that selects none; one example of one token with
  hidden value 1.
\<close>

definition pooling_layer :: RepresentationProjectionLayer where
  "pooling_layer = example_extractor \<lparr> tokens := True \<rparr>"

definition pooling_hidden :: "tfloat tensor" where
  "pooling_hidden = \<lparr> shape = [1, 2, 1], elems = (\<lambda>idx. Fin (if idx ! 1 = 0 then 2 else 4)) \<rparr>"

definition mask_all :: "int tensor" where
  "mask_all = \<lparr> shape = [1, 2], elems = (\<lambda>idx. 1) \<rparr>"

definition mask_none :: "int tensor" where
  "mask_none = \<lparr> shape = [1, 2], elems = (\<lambda>idx. 0) \<rparr>"

definition relation_layer :: RepresentationProjectionLayer where
  "relation_layer =
     \<lparr> dropout = example_dropout, dense = Identity, layer_to_use = - 1,
       tokens = False, tagger = False, relations = True, hidden_size = 1,
       rel_attrs = Some \<lparr> num_attention_heads = 1, attention_head_size = 1, all_head_size = 1,
                          query = example_linear 1 1, key = example_linear 1 1 \<rparr> \<rparr>"

definition relation_hidden :: "tfloat tensor" where
  "relation_hidden = \<lparr> shape = [1, 1, 1], elems = (\<lambda>idx. Fin 1) \<rparr>"

text \<open>A forward call with labels and no optional encoder arguments.\<close>

definition example_inputs :: "int forward_inputs" where
  "example_inputs =
     \<lparr> input_ids = Some \<lparr> shape = [1, 2], elems = (\<lambda>idx. 0) \<rparr>,
       attention_mask = None, token_type_ids = None, position_ids = None, head_mask = None,
       inputs_embeds = None, labels_arg = Some example_labels, output_attentions = None,
       event_tokens_arg = None \<rparr>"

text \<open>
  A configuration with the two sentence-level tasks, parametrised by the layer index,
  and initial module states; the same forward call without labels.
\<close>

definition example_config :: "int \<Rightarrow> CnlpConfig" where
  "example_config l =
     \<lparr> finetuning_task = [''reg'', ''cls''],
       config_layer = l,
       config_tokens = False,
       num_rel_attention_heads = 12,
       rel_attention_head_dims = 64,
       config_tagger = [''reg'' \<mapsto> False, ''cls'' \<mapsto> False],
       config_relations = [''reg'' \<mapsto> False, ''cls'' \<mapsto> False],
       config_use_prior_tasks = False,
       config_label_dictionary = [(''reg'', [''value'']), (''cls'', [''no'', ''yes''])],
       hidden_dropout_prob = 1 / 10,
       config_hidden_size = 1 \<rparr>"

definition example_layer_init :: layer_init where
  "example_layer_init =
     \<lparr> init_noise = (\<lambda>idx. True),
       dense_weight = (\<lambda>out k. Fin 1), dense_bias = (\<lambda>out. Fin 0),
       query_weight = (\<lambda>out k. Fin 1), query_bias = (\<lambda>out. Fin 0),
       key_weight = (\<lambda>out k. Fin 1), key_bias = (\<lambda>out. Fin 0) \<rparr>"

definition example_head_init :: head_init where
  "example_head_init =
     \<lparr> head_noise = (\<lambda>idx. True),
       out_proj_weight = (\<lambda>out k. Fin 1), out_proj_bias = (\<lambda>out. Fin 0) \<rparr>"

definition example_inputs_no_labels :: "int forward_inputs" where
  "example_inputs_no_labels = example_inputs \<lparr> labels_arg := None \<rparr>"

text \<open>
  A model with a relation task followed by a sentence-level task, in evaluation mode,
  over the same encoder.  A stand-in for the cross-entropy that is 10 when the first
  label of its target (the entry at the all-zero index) is class 0, and 20 otherwise.
  A rank-3 label tensor for one example of two tokens: columns 0 and 1 hold the
  relation labels, all of class 0, and column 2 holds class 1.  The forward call with
  these labels.
\<close>

definition grid_probe_losses :: "int loss_functions" where
  "grid_probe_losses =
     \<lparr> MSELoss = (\<lambda>a b. Inr (Fin 0)),
       CrossEntropyLoss = (\<lambda>cw a b.
         Inr (Fin (if elems b (replicate (ndim b) 0) = 0 then 10 else 20))) \<rparr>"

definition grid_model :: CnlpModelForClassification where
  "grid_model =
     \<lparr> encoder = example_encoder,
       tasks = [''rel'', ''cls''],
       feature_extractors = [(''rel'', relation_layer), (''cls'', example_extractor)],
       classifiers = [(''rel'', example_head 2), (''cls'', example_head 2)],
       model_tagger = [''rel'' \<mapsto> False, ''cls'' \<mapsto> False],
       model_relations = [''rel'' \<mapsto> True, ''cls'' \<mapsto> False],
       class_weights = [''rel'' \<mapsto> None, ''cls'' \<mapsto> None],
       label_dictionary = [(''rel'', [''None'', ''CONTAINS'']), (''cls'', [''no'', ''yes''])],
       final_task_weight = 1,
       use_prior_tasks = False,
       model_training = False \<rparr>"

definition grid_labels :: "int tensor" where
  "grid_labels = \<lparr> shape = [1, 2, 3], elems = (\<lambda>idx. if idx ! 2 = 2 then 1 else 0) \<rparr>"

definition grid_inputs :: "int forward_inputs" where
  "grid_inputs = example_inputs \<lparr> labels_arg := Some grid_labels \<rparr>"

text \<open>
  One example of two tokens whose first hidden value is infinite and whose second is
  2, and a mask that selects the second token only.
\<close>

definition pooling_hidden_inf :: "tfloat tensor" where
  "pooling_hidden_inf =
     \<lparr> shape = [1, 2, 1], elems = (\<lambda>idx. if idx ! 1 = 0 then PInf else Fin 2) \<rparr>"

definition mask_second :: "int tensor" where
  "mask_second = \<lparr> shape = [1, 2], elems = (\<lambda>idx. if idx ! 1 = 0 then 0 else 1) \<rparr>"

text \<open>Some of the attribute names of an \<^verbatim>\<open>nn.ModuleDict\<close>.\<close>

definition example_module_attrs :: "string set" where
  "example_module_attrs = {''type'', ''training'', ''forward'', ''keys'', ''items'', ''values''}"

section \<open>Auxiliary lemmas\<close>

subsection \<open>The fan-in loop and the keyword loop\<close>

lemma fan_in_loop_rel_skip:
  "ndim features = 4 \<Longrightarrow> \<forall>p\<in>set logits. ndim p \<noteq> 3 \<Longrightarrow>
   fan_in_loop n (features, msgs) logits =
     Inr (features, msgs @ map (\<lambda>p. RelationFanInNotImplemented (shape p)) logits)"
  by (induction logits arbitrary: msgs) (simp_all add: fan_in_step_def ebind_def)

lemma fan_in_loop_seq_skip:
  "ndim features = 3 \<Longrightarrow>
   fan_in_loop n (features, msgs) logits =
     Inr (features, msgs @ map (\<lambda>p. SequenceFanInNotImplemented) logits)"
  by (induction logits arbitrary: msgs) (simp_all add: fan_in_step_def ebind_def)

text \<open>
  The supported combination: for a relation grid of shape (batch, seq, seq, heads) and
  a prior task's logits of shape (batch, seq, num_labels) the loop body returns, without
  a diagnostic, a grid of shape (batch, seq, seq, heads + num_labels) that keeps the
  features and whose appended part at \<open>(b, i, j)\<close> is the prior logits at \<open>(b, i)\<close>.
\<close>

lemma fan_in_tagging_entries:
  assumes "shape features = [B, S, S, H]" and "shape prior = [B, S, L]"
  shows "\<exists>r. predict_relations_with_previous_logits features [prior] = Inr (r, [])
     \<and> shape r = [B, S, S, H + L]
     \<and> (\<forall>b<B. \<forall>i<S. \<forall>j<S.
          (\<forall>k<H. elems r [b, i, j, k] = elems features [b, i, j, k]) \<and>
          (\<forall>k<L. elems r [b, i, j, H + k] = elems prior [b, i, k]))"
  using assms
  by (simp add: predict_relations_with_previous_logits_def shape_at_def ndim_def fan_in_step_def
      ebind_def unsqueeze_def repeat_def cat_def Let_def)

lemma update_fresh: "k \<notin> fst ` set al \<Longrightarrow> AList.update k v al = al @ [(k, v)]"
  by (induction al) auto

lemma kwargs_loop_filter:
  "distinct (map fst acc @ map fst kwargs) \<Longrightarrow>
   kwargs_loop params cls kwargs (acc, msgs) =
     (acc @ filter (\<lambda>(k, v). k \<in> params) kwargs,
      msgs @ map (\<lambda>(k, v). ParameterNotPresent k cls)
                 (filter (\<lambda>(k, v). k \<notin> params \<and> v \<noteq> None) kwargs))"
proof (induction kwargs arbitrary: acc msgs)
  case Nil
  then show ?case by simp
next
  case (Cons kv kwargs)
  obtain k v where kv: "kv = (k, v)" by (cases kv)
  from Cons.prems kv have fresh: "k \<notin> fst ` set acc" by auto
  from Cons.prems kv have d1: "distinct (map fst acc @ map fst kwargs)" by auto
  from Cons.prems kv have d2: "distinct (map fst (acc @ [(k, v)]) @ map fst kwargs)" by auto
  show ?case
  proof (cases "k \<in> params")
    case True
    then show ?thesis
      unfolding kv using Cons.IH[OF d2, of msgs] fresh by (simp add: update_fresh)
  next
    case False
    then show ?thesis
      unfolding kv using Cons.IH[OF d1] by (cases v) simp_all
  qed
qed


subsection \<open>Reshaping and transposition at rank 3 and 4\<close>

lemma divmod_block: "(r::nat) < A \<Longrightarrow> (q * A + r) div A = q \<and> (q * A + r) mod A = r"
  by simp

lemma block_less: "(s::nat) < S \<Longrightarrow> r < A \<Longrightarrow> s * A + r < S * A"
proof -
  assume s: "s < S" and r: "r < A"
  have "s * A + r < s * A + A" using r by simp
  also have "\<dots> = Suc s * A" by simp
  also have "\<dots> \<le> S * A" using s by (intro mult_le_mono1) simp
  finally show ?thesis .
qed

lemma unravel3:
  assumes "s < S" "r < A"
  shows "unravel [B, S, A] (b * (S * A) + (s * A + r)) = [b, s, r]"
proof -
  have 1: "s * A + r < S * A" using assms by (rule block_less)
  have 2: "(b * (S * A) + (s * A + r)) div (S * A) = b"
    and 3: "(b * (S * A) + (s * A + r)) mod (S * A) = s * A + r"
    using divmod_block[OF 1, of b] by simp_all
  have 4: "(s * A + r) div A = s" "(s * A + r) mod A = r"
    using divmod_block[OF assms(2), of s] by simp_all
  have 5: "(s * A + r) mod (S * A) = s * A + r" using 1 by simp
  show ?thesis using assms(2) by (simp add: 2 3 4 5)
qed

lemma permute4:
  assumes "shape v = [n0, n1, n2, n3]" and "set perm = {0, 1, 2, 3}" and "length perm = 4"
  shows "permute perm v =
     Inr \<lparr> shape = map (\<lambda>a. [n0, n1, n2, n3] ! a) perm,
           elems = (\<lambda>idx. elems v (map (\<lambda>a. idx ! position_of a perm) [0, 1, 2, 3])) \<rparr>"
proof -
  have n: "ndim v = 4" using assms by (simp add: ndim_def)
  have s: "set perm = {..<ndim v}" unfolding n assms(2) by auto
  have u: "[0..<ndim v] = [0, 1, 2, 3]" unfolding n by (simp add: upt_rec)
  show ?thesis
    unfolding permute_def using assms(1,3) s n u by simp
qed

lemma view_split_heads:
  assumes "shape t = [B, S, nh * hs]"
  shows "\<exists>r. view (map int [B, S, nh, hs]) t = Inr r \<and> shape r = [B, S, nh, hs] \<and>
     (\<forall>b s h d. s < S \<longrightarrow> h < nh \<longrightarrow> d < hs \<longrightarrow>
        elems r [b, s, h, d] = elems t [b, s, h * hs + d])"
proof -
  have v: "view (map int [B, S, nh, hs]) t = reshape [B, S, nh, hs] t"
    by (simp add: view_def Let_def)
  have e: "\<And>b s h d. s < S \<Longrightarrow> h < nh \<Longrightarrow> d < hs \<Longrightarrow>
      unravel [B, S, nh * hs] (ravel [B, S, nh, hs] [b, s, h, d]) = [b, s, h * hs + d]"
  proof -
    fix b s h d assume s: "s < S" and h: "h < nh" and d: "d < hs"
    have "ravel [B, S, nh, hs] [b, s, h, d] = b * (S * (nh * hs)) + (s * (nh * hs) + (h * hs + d))"
      by (simp add: algebra_simps)
    then show "unravel [B, S, nh * hs] (ravel [B, S, nh, hs] [b, s, h, d]) = [b, s, h * hs + d]"
      using unravel3[OF s block_less[OF h d], of B b] by simp
  qed
  have n: "prod_list [B, S, nh, hs] = numel t"
    using assms by (simp add: numel_def algebra_simps)
  show ?thesis
    unfolding v reshape_def using n assms e by (simp del: unravel.simps ravel.simps)
qed

lemma transpose_for_scores_entries:
  assumes "shape t = [B, S, nh * hs]"
    and "num_attention_heads attrs = nh" and "attention_head_size attrs = hs"
  shows "\<exists>r. transpose_for_scores attrs t = Inr r \<and> shape r = [B, nh, S, hs] \<and>
     (\<forall>b s h d. s < S \<longrightarrow> h < nh \<longrightarrow> d < hs \<longrightarrow>
        elems r [b, h, s, d] = elems t [b, s, h * hs + d])"
proof -
  obtain v where v: "view (map int [B, S, nh, hs]) t = Inr v" and sv: "shape v = [B, S, nh, hs]"
    and ev: "\<forall>b s h d. s < S \<longrightarrow> h < nh \<longrightarrow> d < hs \<longrightarrow>
        elems v [b, s, h, d] = elems t [b, s, h * hs + d]"
    using view_split_heads[OF assms(1)] by blast
  have "transpose_for_scores attrs t = permute [0, 2, 1, 3] v"
    using assms v by (simp add: transpose_for_scores_def ebind_def)
  also have "\<dots> = Inr \<lparr> shape = map (\<lambda>a. [B, S, nh, hs] ! a) [0, 2, 1, 3],
           elems = (\<lambda>idx. elems v (map (\<lambda>a. idx ! position_of a [0, 2, 1, 3]) [0, 1, 2, 3])) \<rparr>"
    by (rule permute4[OF sv]) auto
  finally show ?thesis
    using ev by (simp add: position_of_def)
qed

lemma Linear_forward_rank3:
  assumes "shape x = [B, S, H]" and "in_features lin = H"
  shows "Linear_forward lin x =
     Inr \<lparr> shape = [B, S, out_features lin],
           elems = (\<lambda>idx. fadd
                            (fsum (map (\<lambda>k. fmul (elems x (butlast idx @ [k]))
                                              (weight lin (last idx) k))
                                       [0..<H]))
                            (bias lin (last idx))) \<rparr>"
  using assms by (simp add: Linear_forward_def ndim_def)

lemma transpose_last2_rank4:
  assumes "shape v = [n0, n1, n2, n3]"
  shows "transpose_last2 v =
     Inr \<lparr> shape = [n0, n1, n3, n2],
           elems = (\<lambda>idx. elems v [idx ! 0, idx ! 1, idx ! 3, idx ! 2]) \<rparr>"
proof -
  have n: "ndim v = 4" using assms by (simp add: ndim_def)
  have "transpose_last2 v = permute [0, 1, 3, 2] v"
    unfolding transpose_last2_def n by (simp add: upt_rec)
  also have "\<dots> = Inr \<lparr> shape = map (\<lambda>a. [n0, n1, n2, n3] ! a) [0, 1, 3, 2],
           elems = (\<lambda>idx. elems v (map (\<lambda>a. idx ! position_of a [0, 1, 3, 2]) [0, 1, 2, 3])) \<rparr>"
    by (rule permute4[OF assms]) auto
  finally show ?thesis by (simp add: position_of_def eval_nat_numeral)
qed

lemma matmul_rank4:
  assumes "shape a = [B, N, S, D]" and "shape b = [B, N, D, T]"
  shows "matmul a b =
     Inr \<lparr> shape = [B, N, S, T],
           elems = (\<lambda>idx. fsum (map (\<lambda>k. fmul (elems a (take 3 idx @ [k]))
                                                (elems b (take 2 idx @ [k, idx ! 3])))
                                      [0..<D])) \<rparr>"
  using assms by (simp add: matmul_def ndim_def Let_def eval_nat_numeral)


lemma relation_scores_entries:
  assumes attrs: "rel_attrs self = Some attrs"
    and hid: "py_getitem features (layer_to_use self) = Inr hid"
    and sh: "shape hid = [B, S, H]"
    and qi: "in_features (query attrs) = H" and ki: "in_features (key attrs) = H"
    and qo: "out_features (query attrs) = nh * hs" and ko: "out_features (key attrs) = nh * hs"
    and nh: "num_attention_heads attrs = nh" and hs: "attention_head_size attrs = hs"
  shows "\<exists>q k x. Linear_forward (query attrs) hid = Inr q \<and>
           Linear_forward (key attrs) hid = Inr k \<and>
           relation_scores self features = Inr x \<and> shape x = [B, S, S, nh] \<and>
           (\<forall>b i j h. i < S \<longrightarrow> j < S \<longrightarrow> h < nh \<longrightarrow>
              elems x [b, i, j, h] =
                fdiv (fsum (map (\<lambda>d. fmul (elems q [b, i, h * hs + d]) (elems k [b, j, h * hs + d]))
                                [0..<hs]))
                     (Fin (sqrt (real hs))))"
proof -
  obtain q where q: "Linear_forward (query attrs) hid = Inr q" and sq: "shape q = [B, S, nh * hs]"
    using Linear_forward_rank3[OF sh qi] qo by simp
  obtain k where k: "Linear_forward (key attrs) hid = Inr k" and sk: "shape k = [B, S, nh * hs]"
    using Linear_forward_rank3[OF sh ki] ko by simp
  obtain ql where ql: "transpose_for_scores attrs q = Inr ql" and sql: "shape ql = [B, nh, S, hs]"
    and eql: "\<forall>b s h d. s < S \<longrightarrow> h < nh \<longrightarrow> d < hs \<longrightarrow>
        elems ql [b, h, s, d] = elems q [b, s, h * hs + d]"
    using transpose_for_scores_entries[OF sq nh hs] by blast
  obtain kl where kl: "transpose_for_scores attrs k = Inr kl" and skl: "shape kl = [B, nh, S, hs]"
    and ekl: "\<forall>b s h d. s < S \<longrightarrow> h < nh \<longrightarrow> d < hs \<longrightarrow>
        elems kl [b, h, s, d] = elems k [b, s, h * hs + d]"
    using transpose_for_scores_entries[OF sk nh hs] by blast
  define kt where "kt = \<lparr> shape = [B, nh, hs, S],
           elems = (\<lambda>idx. elems kl [idx ! 0, idx ! 1, idx ! 3, idx ! 2]) \<rparr>"
  have kt: "transpose_last2 kl = Inr kt"
    unfolding kt_def by (rule transpose_last2_rank4[OF skl])
  have skt: "shape kt = [B, nh, hs, S]" by (simp add: kt_def)
  define sc where "sc = \<lparr> shape = [B, nh, S, S],
           elems = (\<lambda>idx. fsum (map (\<lambda>d. fmul (elems ql (take 3 idx @ [d]))
                                                (elems kt (take 2 idx @ [d, idx ! 3])))
                                      [0..<hs])) \<rparr>"
  have sc: "matmul ql kt = Inr sc"
    unfolding sc_def by (rule matmul_rank4[OF sql skt])
  define x0 where "x0 = tmap (\<lambda>v. fdiv v (Fin (sqrt (real hs)))) sc"
  have sx0: "shape x0 = [B, nh, S, S]" by (simp add: x0_def tmap_def sc_def)
  define x where "x = \<lparr> shape = map (\<lambda>a. [B, nh, S, S] ! a) [0, 2, 3, 1],
           elems = (\<lambda>idx. elems x0 (map (\<lambda>a. idx ! position_of a [0, 2, 3, 1]) [0, 1, 2, 3])) \<rparr>"
  have x: "permute [0, 2, 3, 1] x0 = Inr x"
    unfolding x_def by (rule permute4[OF sx0]) auto
  have r: "relation_scores self features = Inr x"
    using attrs hid q k ql kl kt sc x hs
    by (simp add: relation_scores_def ebind_def x0_def)
  have sx: "shape x = [B, S, S, nh]" by (simp add: x_def)
  have ex: "elems x [b, i, j, h] =
      fdiv (fsum (map (\<lambda>d. fmul (elems q [b, i, h * hs + d]) (elems k [b, j, h * hs + d]))
                      [0..<hs]))
           (Fin (sqrt (real hs)))" if "i < S" "j < S" "h < nh" for b i j h
  proof -
    have m: "map (\<lambda>d. fmul (elems ql [b, h, i, d]) (elems kl [b, h, j, d])) [0..<hs] =
             map (\<lambda>d. fmul (elems q [b, i, h * hs + d]) (elems k [b, j, h * hs + d])) [0..<hs]"
      using eql ekl that by (intro map_cong) simp_all
    have "elems x [b, i, j, h] =
        fdiv (fsum (map (\<lambda>d. fmul (elems ql [b, h, i, d]) (elems kl [b, h, j, d])) [0..<hs]))
             (Fin (sqrt (real hs)))"
      by (simp add: x_def x0_def tmap_def sc_def kt_def position_of_def eval_nat_numeral)
    then show ?thesis using m by simp
  qed
  show ?thesis using q k r sx ex by blast
qed

lemma forward_relation_mode:
  assumes "\<not> tokens self" and "\<not> tagger self" and "relations self" and "dense self = Identity"
    and "py_getitem features 0 = Inr f0" and "1 < ndim f0"
    and "relation_scores self features = Inr x"
  shows "RepresentationProjectionLayer_forward self features event_tokens =
           Inr (tmap ftanh (Dropout_forward (dropout self) x))"
  using assms
  by (simp add: RepresentationProjectionLayer_forward_def ebind_def shape_at_def post_process_def)

subsection \<open>Token pooling\<close>

lemma broadcast_index3:
  "b < B \<Longrightarrow> s < S \<Longrightarrow> h < H \<Longrightarrow> broadcast_index [B, S, H] [b, s, h] = [b, s, h]"
  by (auto simp: broadcast_index_def)

lemma broadcast_index2:
  "b < B \<Longrightarrow> h < H \<Longrightarrow> broadcast_index [B, H] [b, h] = [b, h]"
  by (auto simp: broadcast_index_def)

lemma broadcast_index3_last1:
  "b < B \<Longrightarrow> s < S \<Longrightarrow> broadcast_index [B, S, Suc 0] [b, s, h] = [b, s, 0]"
  by (auto simp: broadcast_index_def)

lemma broadcast_index2_last1:
  "b < B \<Longrightarrow> broadcast_index [B, Suc 0] [b, h] = [b, 0]"
  by (auto simp: broadcast_index_def)

lemma foldl_plus_sum_list: "foldl (+) (a::int) xs = a + sum_list xs"
  by (induction xs arbitrary: a) simp_all

lemma foldl_fadd_Fin:
  "foldl fadd (Fin a) (map (\<lambda>k. Fin (f k)) xs) = Fin (a + sum_list (map f xs))"
  by (induction xs arbitrary: a) simp_all

lemma pool_event_tokens_entries:
  assumes f0: "py_getitem features 0 = Inr f0" and sf0: "shape f0 = [B, S, H]"
    and fl: "py_getitem features (layer_to_use self) = Inr fl" and sfl: "shape fl = [B, S, H]"
    and hsz: "hidden_size self = H"
    and sev: "shape ev = [B, S]"
  shows "\<exists>x. pool_event_tokens self features (Some ev) S = Inr x \<and> shape x = [B, H] \<and>
     (\<forall>b h. b < B \<longrightarrow> h < H \<longrightarrow>
        elems x [b, h] =
          fdiv (fsum (map (\<lambda>s. fmul (elems fl [b, s, h]) (to_float (elems ev [b, s]))) [0..<S]))
               (to_float (sum_list (map (\<lambda>s. elems ev [b, s]) [0..<S]))))"
proof -
  define cnt :: "int tensor" where
    "cnt = \<lparr> shape = [B], elems = (\<lambda>idx. foldl (+) 0
                            (map (\<lambda>k. elems ev (take 1 idx @ [k] @ drop 1 idx)) [0..<S])) \<rparr>"
  have cnt: "sum_dim (+) 0 1 ev = Inr cnt"
    using sev by (simp add: sum_dim_def ndim_def cnt_def)
  define u :: "int tensor" where
    "u = \<lparr> shape = [B, S, 1], elems = (\<lambda>idx. elems ev (take 2 idx @ drop (Suc 2) idx)) \<rparr>"
  have u: "unsqueeze 2 ev = Inr u"
    using sev by (simp add: unsqueeze_def ndim_def u_def)
  have b0: "shape_at f0 0 = Inr B"
    using sf0 by (simp add: shape_at_def ndim_def)
  define ex :: "int tensor" where
    "ex = \<lparr> shape = [B, S, H], elems = (\<lambda>idx. elems u (broadcast_index [B, S, 1] idx)) \<rparr>"
  have ex: "expand [B, S, H] u = Inr ex"
    by (simp add: expand_def ndim_def u_def ex_def)
  have bs: "broadcast_shapes [B, S, H] [B, S, H] = Inr [B, S, H]"
    by (simp add: broadcast_shapes_def)
  define ff :: "tfloat tensor" where
    "ff = \<lparr> shape = [B, S, H],
            elems = (\<lambda>idx. fmul (elems fl (broadcast_index [B, S, H] idx))
                              (to_float (elems ex (broadcast_index [B, S, H] idx)))) \<rparr>"
  have ff: "binop (\<lambda>v m. fmul v (to_float m)) fl ex = Inr ff"
    using sfl bs by (simp add: binop_def ex_def ff_def)
  define tot :: "tfloat tensor" where
    "tot = \<lparr> shape = [B, H], elems = (\<lambda>idx. foldl fadd (Fin 0)
                            (map (\<lambda>k. elems ff (take 1 idx @ [k] @ drop 1 idx)) [0..<S])) \<rparr>"
  have tot: "sum_dim fadd (Fin 0) 1 ff = Inr tot"
    by (simp add: sum_dim_def ndim_def ff_def tot_def)
  define c :: "int tensor" where
    "c = \<lparr> shape = [B, 1], elems = (\<lambda>idx. elems cnt (take 1 idx @ drop (Suc 1) idx)) \<rparr>"
  have c: "unsqueeze 1 cnt = Inr c"
    by (simp add: unsqueeze_def ndim_def cnt_def c_def)
  define ce :: "int tensor" where
    "ce = \<lparr> shape = [B, H], elems = (\<lambda>idx. elems c (broadcast_index [B, 1] idx)) \<rparr>"
  have ce: "expand [B, H] c = Inr ce"
    by (simp add: expand_def ndim_def c_def ce_def)
  have bs2: "broadcast_shapes [B, H] [B, H] = Inr [B, H]"
    by (simp add: broadcast_shapes_def)
  define x :: "tfloat tensor" where
    "x = \<lparr> shape = [B, H],
           elems = (\<lambda>idx. fdiv (elems tot (broadcast_index [B, H] idx))
                              (to_float (elems ce (broadcast_index [B, H] idx)))) \<rparr>"
  have x: "binop (\<lambda>v m. fdiv v (to_float m)) tot ce = Inr x"
    using bs2 by (simp add: binop_def tot_def ce_def x_def)
  have p: "pool_event_tokens self features (Some ev) S = Inr x"
    using cnt u f0 b0 ex fl ff tot c ce x hsz
    by (simp add: pool_event_tokens_def ebind_def)
  have e: "elems x [b, h] =
          fdiv (fsum (map (\<lambda>s. fmul (elems fl [b, s, h]) (to_float (elems ev [b, s]))) [0..<S]))
               (to_float (sum_list (map (\<lambda>s. elems ev [b, s]) [0..<S])))"
    if "b < B" "h < H" for b h
  proof -
    have n: "map (\<lambda>k. elems ff [b, k, h]) [0..<S] =
             map (\<lambda>s. fmul (elems fl [b, s, h]) (to_float (elems ev [b, s]))) [0..<S]"
      using that
      by (intro map_cong)
         (simp_all add: ff_def ex_def u_def broadcast_index3 broadcast_index3_last1)
    have d: "foldl (+) 0 (map (\<lambda>k. elems ev [b, k]) [0..<S]) =
             sum_list (map (\<lambda>s. elems ev [b, s]) [0..<S])"
      by (simp add: foldl_plus_sum_list)
    have raw: "elems x [b, h] =
        fdiv (foldl fadd (Fin 0) (map (\<lambda>k. elems ff [b, k, h]) [0..<S]))
             (to_float (foldl (+) 0 (map (\<lambda>k. elems ev [b, k]) [0..<S])))"
      using that
      by (simp add: x_def tot_def ce_def c_def cnt_def broadcast_index2 broadcast_index2_last1)
    show ?thesis unfolding raw n d fsum_def ..
  qed
  show ?thesis using p e by (simp add: x_def)
qed


lemma masked_sums:
  assumes "\<forall>s<S. m s = 0 \<or> m s = (1::int)"
  shows "sum_list (map (\<lambda>s. g s * real_of_int (m s)) [0..<S]) = (\<Sum>s\<in>{s. s < S \<and> m s = 1}. g s)"
    and "real_of_int (sum_list (map m [0..<S])) = real (card {s. s < S \<and> m s = 1})"
proof -
  have set_eq: "{s. s < S \<and> m s = 1} = {s \<in> {0..<S}. m s = 1}" by auto
  have "sum_list (map (\<lambda>s. g s * real_of_int (m s)) [0..<S]) = (\<Sum>s\<in>{0..<S}. g s * real_of_int (m s))"
    by (simp add: sum_list_distinct_conv_sum_set)
  also have "\<dots> = (\<Sum>s\<in>{0..<S}. if m s = 1 then g s else 0)"
    using assms by (intro sum.cong) auto
  also have "\<dots> = (\<Sum>s\<in>{s \<in> {0..<S}. m s = 1}. g s)"
    by (rule sum.inter_filter[symmetric]) simp
  finally show "sum_list (map (\<lambda>s. g s * real_of_int (m s)) [0..<S]) = (\<Sum>s\<in>{s. s < S \<and> m s = 1}. g s)"
    unfolding set_eq .
  have "sum_list (map m [0..<S]) = (\<Sum>s\<in>{0..<S}. m s)"
    by (simp add: sum_list_distinct_conv_sum_set)
  also have "\<dots> = (\<Sum>s\<in>{0..<S}. if m s = 1 then 1 else 0)"
    using assms by (intro sum.cong) auto
  also have "\<dots> = (\<Sum>s\<in>{s \<in> {0..<S}. m s = 1}. 1)"
    by (rule sum.inter_filter[symmetric]) simp
  also have "\<dots> = int (card {s. s < S \<and> m s = 1})"
    unfolding set_eq by simp
  finally show "real_of_int (sum_list (map m [0..<S])) = real (card {s. s < S \<and> m s = 1})"
    by simp
qed

lemma masked_mean:
  assumes "\<forall>s<S. m s = 0 \<or> m s = (1::int)"
  shows "fdiv (fsum (map (\<lambda>s. fmul (Fin (g s)) (to_float (m s))) [0..<S]))
              (to_float (sum_list (map m [0..<S]))) =
         (if {s. s < S \<and> m s = 1} = {} then NaN
          else Fin ((\<Sum>s\<in>{s. s < S \<and> m s = 1}. g s) / real (card {s. s < S \<and> m s = 1})))"
proof -
  have fin: "finite {s. s < S \<and> m s = 1}" by simp
  have num: "fsum (map (\<lambda>s. fmul (Fin (g s)) (to_float (m s))) [0..<S]) =
             Fin (\<Sum>s\<in>{s. s < S \<and> m s = 1}. g s)"
    using foldl_fadd_Fin[of 0 "\<lambda>s. g s * real_of_int (m s)" "[0..<S]"] masked_sums(1)[OF assms, of g]
    by (simp add: fsum_def to_float_def)
  have den: "to_float (sum_list (map m [0..<S])) = Fin (real (card {s. s < S \<and> m s = 1}))"
    using masked_sums(2)[OF assms] by (simp add: to_float_def)
  show ?thesis
  proof (cases "{s. s < S \<and> m s = 1} = {}")
    case True
    have "fsum (map (\<lambda>s. fmul (Fin (g s)) (to_float (m s))) [0..<S]) = Fin 0"
      unfolding num True by simp
    moreover have "to_float (sum_list (map m [0..<S])) = Fin 0"
      unfolding den True by simp
    ultimately show ?thesis using True by (simp add: signed_inf_def)
  next
    case False
    then have "real (card {s. s < S \<and> m s = 1}) \<noteq> 0"
      using fin by (simp only: of_nat_eq_0_iff card_eq_0_iff) simp
    then have "fdiv (Fin (\<Sum>s\<in>{s. s < S \<and> m s = 1}. g s)) (Fin (real (card {s. s < S \<and> m s = 1}))) =
        Fin ((\<Sum>s\<in>{s. s < S \<and> m s = 1}. g s) / real (card {s. s < S \<and> m s = 1}))"
      by (simp only: fdiv.simps if_False)
    then show ?thesis unfolding num den using False by (simp only: if_False)
  qed
qed

lemma fadd_zero_right: "fadd a (Fin 0) = a"
  by (cases a) simp_all

lemma fmul_one_right: "fmul a (Fin 1) = a"
  by (cases a) (simp_all add: signed_inf_def)

lemma masked_fsum:
  assumes "\<forall>s\<in>set xs. m s = 0 \<or> m s = (1::int)"
    and "\<forall>s\<in>set xs. m s = 0 \<longrightarrow> (\<exists>v. x s = Fin v)"
  shows "foldl fadd a (map (\<lambda>s. fmul (x s) (to_float (m s))) xs) =
         foldl fadd a (map x (filter (\<lambda>s. m s = 1) xs))"
  using assms
  by (induction xs arbitrary: a) (auto simp: to_float_def fadd_zero_right fmul_one_right)

lemma masked_count:
  assumes "\<forall>s\<in>set xs. m s = 0 \<or> m s = (1::int)"
  shows "sum_list (map m xs) = int (length (filter (\<lambda>s. m s = 1) xs))"
  using assms by (induction xs) auto

lemma masked_float_mean:
  assumes "\<forall>s<S. m s = 0 \<or> m s = (1::int)"
    and "\<forall>s<S. m s = 0 \<longrightarrow> (\<exists>v. x s = Fin v)"
  shows "fdiv (fsum (map (\<lambda>s. fmul (x s) (to_float (m s))) [0..<S]))
              (to_float (sum_list (map m [0..<S]))) =
         (if filter (\<lambda>s. m s = 1) [0..<S] = [] then NaN
          else fdiv (fsum (map x (filter (\<lambda>s. m s = 1) [0..<S])))
                    (Fin (real (length (filter (\<lambda>s. m s = 1) [0..<S])))))"
proof -
  have a: "\<forall>s\<in>set [0..<S]. m s = 0 \<or> m s = 1"
    using assms(1) by simp
  have b: "\<forall>s\<in>set [0..<S]. m s = 0 \<longrightarrow> (\<exists>v. x s = Fin v)"
    using assms(2) by simp
  have num: "fsum (map (\<lambda>s. fmul (x s) (to_float (m s))) [0..<S]) =
             fsum (map x (filter (\<lambda>s. m s = 1) [0..<S]))"
    unfolding fsum_def by (rule masked_fsum[OF a b])
  have den: "to_float (sum_list (map m [0..<S])) =
             Fin (real (length (filter (\<lambda>s. m s = 1) [0..<S])))"
    unfolding masked_count[OF a] by (simp add: to_float_def)
  show ?thesis
    unfolding num den by (simp add: fsum_def signed_inf_def)
qed

lemma forward_tokens_mode:
  assumes "tokens self" and "py_getitem features 0 = Inr f0" and "shape f0 = [B, S, H]"
  shows "RepresentationProjectionLayer_forward self features event_tokens =
           ebind (pool_event_tokens self features event_tokens S) (post_process self)"
  using assms
  by (simp add: RepresentationProjectionLayer_forward_def ebind_def shape_at_def ndim_def)

lemma tanh_one_neq: "tanh (1::real) \<noteq> 1"
  using tanh_real_lt_1[of 1] by simp

subsection \<open>The forward pass on the example model\<close>

lemma example_kwargs: "generalize_encoder_forward_kwargs (forward_params example_encoder) (class_name example_encoder)
              [(''attention_mask'', None),
               (''token_type_ids'', None),
               (''position_ids'', None),
               (''head_mask'', None),
               (''inputs_embeds'', None),
               (''output_attentions'', None),
               (''output_hidden_states'', Some (PyBool True)),
               (''return_dict'', Some (PyBool True))] = 
     ([(''attention_mask'', None),
               (''token_type_ids'', None),
               (''position_ids'', None),
               (''head_mask'', None),
               (''inputs_embeds'', None),
               (''output_attentions'', None),
               (''output_hidden_states'', Some (PyBool True)),
               (''return_dict'', Some (PyBool True))], [])"
  by (simp add: generalize_encoder_forward_kwargs_def example_encoder_def)

lemma example_extractor_forward: "RepresentationProjectionLayer_forward example_extractor [example_hidden, example_hidden] None
   = Inr \<lparr> shape = [Suc 0, Suc 0], elems = (\<lambda>idx. Fin 0) \<rparr>"
  by (simp add: RepresentationProjectionLayer_forward_def py_getitem_def ebind_def shape_at_def
      ndim_def example_hidden_def example_extractor_def cls_token_def getitem_ellipsis_def
      getitem_def post_process_def Dropout_forward_def example_dropout_def Linear_forward_def
      example_linear_def tmap_def fsum_def)


lemma example_head_forward: "ClassificationHead_forward (example_head n) \<lparr> shape = [Suc 0, Suc 0], elems = (\<lambda>idx. Fin 0) \<rparr>
   = Inr \<lparr> shape = [Suc 0, n], elems = (\<lambda>idx. Fin 0) \<rparr>"
  by (simp add: ClassificationHead_forward_def example_head_def Dropout_forward_def example_dropout_def
      Linear_forward_def example_linear_def ndim_def fsum_def)

lemma example_logits_reg: "task_logits_of (example_model ts w) [example_hidden, example_hidden] None lg ''reg''
   = Inr (\<lparr> shape = [Suc 0, Suc 0], elems = (\<lambda>idx. Fin 0) \<rparr>, [])"
  by (simp add: task_logits_of_def example_model_def py_lookup_def ebind_def example_extractor_forward example_head_forward)

lemma example_logits_cls: "task_logits_of (example_model ts w) [example_hidden, example_hidden] None lg ''cls''
   = Inr (\<lparr> shape = [Suc 0, 2], elems = (\<lambda>idx. Fin 0) \<rparr>, [])"
  by (simp add: task_logits_of_def example_model_def py_lookup_def ebind_def example_extractor_forward example_head_forward)

lemma example_loss_reg_first:
  "compute_loss probe_losses (example_model (''reg'' # ts) w) lg example_labels 0 (Suc 0) B S
     \<lparr> loss = None, task_label_ind = 0 \<rparr> = Inr \<lparr> loss = Some (Fin 0), task_label_ind = 0 \<rparr>"
  by (simp add: compute_loss_def py_getitem_def ebind_def example_model_def task_loss_and_cursor_def
      view_def reshape_def numel_def example_labels_def probe_losses_def accumulate_loss_def)

lemma example_loss_cls_second:
  "n \<noteq> Suc 0 \<Longrightarrow>
   compute_loss probe_losses (example_model [''reg'', ''cls''] w) lg example_labels (Suc 0) n B S
     \<lparr> loss = Some (Fin 0), task_label_ind = 0 \<rparr> =
   Inr \<lparr> loss = Some (Fin (w * 20)), task_label_ind = Suc 0 \<rparr>"
  by (simp add: compute_loss_def py_getitem_def ebind_def example_model_def
      task_loss_and_cursor_def py_lookup_def classification_task_labels_def ndim_def
      example_labels_def getitem_def accumulate_loss_def probe_losses_def to_float_def)

lemma example_loss_cls_only:
  "n \<noteq> Suc 0 \<Longrightarrow>
   compute_loss probe_losses (example_model [''cls''] w) lg example_labels 0 n B S
     \<lparr> loss = None, task_label_ind = 0 \<rparr> = Inr \<lparr> loss = Some (Fin 10), task_label_ind = Suc 0 \<rparr>"
  by (simp add: compute_loss_def py_getitem_def ebind_def example_model_def
      task_loss_and_cursor_def py_lookup_def classification_task_labels_def ndim_def
      example_labels_def getitem_def accumulate_loss_def probe_losses_def to_float_def)

lemma example_forward_reg_cls:
  "forward probe_losses (example_model [''reg'', ''cls''] w) example_inputs =
     Inr (\<lparr> out_loss = Some (Fin (w * 20)),
            out_logits = [\<lparr> shape = [1, 1], elems = (\<lambda>idx. Fin 0) \<rparr>,
                          \<lparr> shape = [1, 2], elems = (\<lambda>idx. Fin 0) \<rparr>],
            out_hidden_states = None, out_attentions = None \<rparr>, [])"
proof -
  have e: "encoder (example_model [''reg'', ''cls''] w) = example_encoder"
    by (simp add: example_model_def)
  have t: "tasks (example_model [''reg'', ''cls''] w) = [''reg'', ''cls'']"
    by (simp add: example_model_def)
  have ld: "label_dictionary (example_model [''reg'', ''cls''] w)
      = [(''reg'', [''value'']), (''cls'', [''no'', ''yes''])]"
    by (simp add: example_model_def)
  have tr: "\<not> model_training (example_model [''reg'', ''cls''] w)"
    by (simp add: example_model_def)
  have z: "zip [0..<length [''reg'', ''cls'']] [''reg'', ''cls''] = [(0, ''reg''), (1, ''cls'')]"
    by (simp add: upt_rec)
  show ?thesis
    unfolding forward_def e t
    by (simp add: example_inputs_def example_kwargs[simplified example_encoder_def, simplified] ld tr z
        example_encoder_def ebind_def ndim_def
        task_step_def py_lookup_def example_logits_reg example_logits_cls example_loss_reg_first example_loss_cls_second)
qed


lemma example_forward_cls:
  "forward probe_losses (example_model [''cls''] w) example_inputs =
     Inr (\<lparr> out_loss = Some (Fin 10),
            out_logits = [\<lparr> shape = [1, 2], elems = (\<lambda>idx. Fin 0) \<rparr>],
            out_hidden_states = None, out_attentions = None \<rparr>, [])"
proof -
  have e: "encoder (example_model [''cls''] w) = example_encoder"
    by (simp add: example_model_def)
  have t: "tasks (example_model [''cls''] w) = [''cls'']"
    by (simp add: example_model_def)
  have ld: "label_dictionary (example_model [''cls''] w)
      = [(''reg'', [''value'']), (''cls'', [''no'', ''yes''])]"
    by (simp add: example_model_def)
  have tr: "\<not> model_training (example_model [''cls''] w)"
    by (simp add: example_model_def)
  show ?thesis
    unfolding forward_def e t
    by (simp add: example_inputs_def example_kwargs[simplified example_encoder_def, simplified] ld tr
        example_encoder_def ebind_def ndim_def
        task_step_def py_lookup_def example_logits_reg example_logits_cls example_loss_cls_only)
qed

subsection \<open>The forward pass on the model with a relation task\<close>

lemma grid_relation_features:
  "\<exists>x. RepresentationProjectionLayer_forward relation_layer [example_hidden, example_hidden] None
         = Inr x \<and> shape x = [1, 2, 2, 1]"
proof -
  have at: "rel_attrs relation_layer = Some \<lparr> num_attention_heads = 1, attention_head_size = 1,
      all_head_size = 1, query = example_linear 1 1, key = example_linear 1 1 \<rparr>"
    by (simp add: relation_layer_def)
  have g: "py_getitem [example_hidden, example_hidden] (layer_to_use relation_layer)
      = Inr example_hidden"
    by (simp add: py_getitem_def relation_layer_def)
  have sh: "shape example_hidden = [1, 2, 1]"
    by (simp add: example_hidden_def)
  obtain x where x: "relation_scores relation_layer [example_hidden, example_hidden] = Inr x"
    and sx: "shape x = [1, 2, 2, 1]"
    using relation_scores_entries[OF at g sh, of 1 1]
    by (auto simp: example_linear_def)
  have f0: "py_getitem [example_hidden, example_hidden] 0 = Inr example_hidden"
    by (simp add: py_getitem_def)
  have fw: "RepresentationProjectionLayer_forward relation_layer [example_hidden, example_hidden]
      None = Inr (tmap ftanh (Dropout_forward (dropout relation_layer) x))"
    by (rule forward_relation_mode[OF _ _ _ _ f0 _ x])
       (simp_all add: relation_layer_def ndim_def example_hidden_def)
  have "shape (tmap ftanh (Dropout_forward (dropout relation_layer) x)) = [1, 2, 2, 1]"
    using sx by (simp add: tmap_def Dropout_forward_def relation_layer_def example_dropout_def)
  then show ?thesis using fw by simp
qed

lemma grid_logits_rel:
  "\<exists>y. task_logits_of grid_model [example_hidden, example_hidden] None lg ''rel'' = Inr (y, [])
       \<and> shape y = [1, 2, 2, 2]"
proof -
  obtain x where x: "RepresentationProjectionLayer_forward relation_layer
      [example_hidden, example_hidden] None = Inr x" and sx: "shape x = [1, 2, 2, 1]"
    using grid_relation_features by (elim exE conjE)
  show ?thesis
    using x sx
    by (simp add: task_logits_of_def grid_model_def py_lookup_def ebind_def
        ClassificationHead_forward_def example_head_def Dropout_forward_def example_dropout_def
        Linear_forward_def example_linear_def ndim_def)
qed

lemma grid_logits_cls:
  "task_logits_of grid_model [example_hidden, example_hidden] None lg ''cls''
   = Inr (\<lparr> shape = [Suc 0, 2], elems = (\<lambda>idx. Fin 0) \<rparr>, [])"
  by (simp add: task_logits_of_def grid_model_def py_lookup_def ebind_def
      example_extractor_forward example_head_forward)

lemma grid_loss_rel:
  assumes "shape y = [1, 2, 2, 2]" and "n \<noteq> Suc 0"
  shows "compute_loss grid_probe_losses grid_model y grid_labels 0 n B 2
     \<lparr> loss = None, task_label_ind = 0 \<rparr> = Inr \<lparr> loss = Some (Fin 10), task_label_ind = 2 \<rparr>"
proof -
  have "\<exists>z. permute [0, 3, Suc 0, 2] y = Inr z"
    using permute4[OF assms(1), of "[0, 3, 1, 2]"] by auto
  then obtain z where z: "permute [0, 3, Suc 0, 2] y = Inr z" ..
  show ?thesis
    using assms(2)
    by (simp add: compute_loss_def py_getitem_def ebind_def grid_model_def
        task_loss_and_cursor_def py_lookup_def relation_task_labels_def getitem_def ndim_def
        grid_labels_def z accumulate_loss_def grid_probe_losses_def)
qed

lemma grid_loss_cls:
  "n \<noteq> Suc 0 \<Longrightarrow>
   compute_loss grid_probe_losses grid_model lg grid_labels (Suc 0) n B S
     \<lparr> loss = Some (Fin 10), task_label_ind = 2 \<rparr> =
   Inr \<lparr> loss = Some (Fin 20), task_label_ind = 3 \<rparr>"
  by (simp add: compute_loss_def py_getitem_def ebind_def grid_model_def
      task_loss_and_cursor_def py_lookup_def classification_task_labels_def ndim_def
      grid_labels_def getitem_def accumulate_loss_def grid_probe_losses_def)

lemma grid_forward:
  "\<exists>out. forward grid_probe_losses grid_model grid_inputs = Inr (out, []) \<and>
         out_loss out = Some (Fin 20) \<and> length (out_logits out) = 2"
proof -
  obtain y where y: "task_logits_of grid_model [example_hidden, example_hidden] None [] ''rel''
      = Inr (y, [])" and sy: "shape y = [1, 2, 2, 2]"
    using grid_logits_rel[of "[]"] by (elim exE conjE)
  have e: "encoder grid_model = example_encoder"
    by (simp add: grid_model_def)
  have t: "tasks grid_model = [''rel'', ''cls'']"
    by (simp add: grid_model_def)
  have ld: "label_dictionary grid_model
      = [(''rel'', [''None'', ''CONTAINS'']), (''cls'', [''no'', ''yes''])]"
    by (simp add: grid_model_def)
  have tr: "\<not> model_training grid_model"
    by (simp add: grid_model_def)
  have z: "zip [0..<length [''rel'', ''cls'']] [''rel'', ''cls''] = [(0, ''rel''), (1, ''cls'')]"
    by (simp add: upt_rec)
  show ?thesis
    unfolding forward_def e t
    by (simp add: grid_inputs_def example_inputs_def
        example_kwargs[simplified example_encoder_def, simplified] ld tr z
        example_encoder_def ebind_def ndim_def task_step_def py_lookup_def
        y grid_logits_cls grid_loss_rel[OF sy] grid_loss_cls)
qed

subsection \<open>Loss accumulation\<close>

lemma accumulate_first: "loss state = None \<Longrightarrow>
   accumulate_loss self task_ind task_loss state = state \<lparr> loss := Some task_loss \<rparr>"
  by (simp add: accumulate_loss_def)

lemma three_task_weighted_sum:
  assumes "length (tasks self) = 3" and "loss state = None"
  shows "loss (accumulate_loss self 2 (Fin l3) (accumulate_loss self 1 (Fin l2)
           (accumulate_loss self 0 (Fin l1) state))) =
         Some (Fin (l1 + l2 + final_task_weight self * l3))"
  using assms by (simp add: accumulate_loss_def)

lemma accumulate_loss_cursor:
  "task_label_ind (accumulate_loss self task_ind task_loss state) = task_label_ind state"
  by (simp add: accumulate_loss_def split: option.splits)

text \<open>
  The cursor after one call of \<^verbatim>\<open>compute_loss\<close>: a regression task (label count 1)
  leaves it unchanged, a relation task advances it by the sequence length, a tagging or
  multi-label classification task by 1.  After a regression task the tagging and the
  relation branch therefore take the slices they would have taken before it.
\<close>

lemma cursor_advance:
  assumes "compute_loss fns self task_logits labels task_ind task_num_labels batch_size seq_len
             state = Inr state'"
    and "py_getitem (tasks self) (int task_ind) = Inr task_name"
  shows "task_label_ind state' = task_label_ind state +
           (if task_num_labels = 1 then 0
            else if model_relations self task_name = Some True then seq_len else 1) \<and>
         (task_num_labels = 1 \<longrightarrow>
            tagging_task_labels labels state' = tagging_task_labels labels state \<and>
            (\<forall>n. relation_task_labels labels state' n = relation_task_labels labels state n))"
proof -
  obtain task_loss st where
    tl: "task_loss_and_cursor fns self task_name task_logits labels task_ind task_num_labels
           batch_size seq_len state = Inr (task_loss, st)"
    and s': "state' = accumulate_loss self task_ind task_loss st"
    using assms by (auto simp: compute_loss_def ebind_def split: sum.splits)
  have c: "task_label_ind st = task_label_ind state +
           (if task_num_labels = 1 then 0
            else if model_relations self task_name = Some True then seq_len else 1)"
    using tl
    by (auto simp: task_loss_and_cursor_def ebind_def py_lookup_def Let_def
        split: sum.splits if_splits option.splits)
  have 1: "task_label_ind state' = task_label_ind state +
           (if task_num_labels = 1 then 0
            else if model_relations self task_name = Some True then seq_len else 1)"
    using c s' by (simp add: accumulate_loss_cursor)
  then have "task_num_labels = 1 \<longrightarrow> task_label_ind state' = task_label_ind state"
    by simp
  then have 2: "task_num_labels = 1 \<longrightarrow>
            tagging_task_labels labels state' = tagging_task_labels labels state \<and>
            (\<forall>n. relation_task_labels labels state' n = relation_task_labels labels state n)"
    by (simp add: tagging_task_labels_def relation_task_labels_def)
  show ?thesis using 1 2 by blast
qed

text \<open>
  The branch of a plain classification task (not tagging, not relation, label count
  other than one): the label tensor is indexed with \<^verbatim>\<open>task_ind\<close>, the cursor is
  incremented and not read.
\<close>

lemma classification_branch:
  assumes "task_num_labels \<noteq> 1"
    and "class_weights self task_name = Some cw"
    and "model_relations self task_name = Some False"
    and "model_tagger self task_name = Some False"
  shows "task_loss_and_cursor fns self task_name task_logits labels task_ind task_num_labels
           batch_size seq_len state =
         ebind (classification_task_labels labels task_ind) (\<lambda>task_labels.
         ebind (CrossEntropyLoss fns cw task_logits task_labels) (\<lambda>task_loss.
         Inr (task_loss, state \<lparr> task_label_ind := task_label_ind state + 1 \<rparr>)))"
  using assms by (simp add: task_loss_and_cursor_def py_lookup_def ebind_def)

lemma classification_task_labels_entries:
  "(ndim labels = 1 \<longrightarrow> classification_task_labels labels task_ind = Inr labels) \<and>
   (\<forall>B T. shape labels = [B, T] \<and> task_ind < T \<longrightarrow>
      (\<exists>r. classification_task_labels labels task_ind = Inr r \<and> shape r = [B] \<and>
           (\<forall>b. elems r [b] = elems labels [b, task_ind]))) \<and>
   (\<forall>B K T. shape labels = [B, K, T] \<and> 0 < K \<and> task_ind < T \<longrightarrow>
      (\<exists>r. classification_task_labels labels task_ind = Inr r \<and> shape r = [B] \<and>
           (\<forall>b. elems r [b] = elems labels [b, 0, task_ind]))) \<and>
   (ndim labels = 0 \<or> 3 < ndim labels \<longrightarrow>
      classification_task_labels labels task_ind = Inl NotImplementedError)"
  by (auto simp: classification_task_labels_def ndim_def getitem_def)

lemma ebind_Inr: "ebind m f = Inr y \<Longrightarrow> \<exists>x. m = Inr x \<and> f x = Inr y"
  by (cases m) (simp_all add: ebind_def)

subsection \<open>The task loop\<close>

lemma compute_loss_sets_loss:
  "compute_loss fns self task_logits labels task_ind n B S state = Inr state' \<Longrightarrow> loss state' \<noteq> None"
  by (auto simp: compute_loss_def ebind_def accumulate_loss_def Let_def
      split: sum.splits option.splits)

lemma task_step_Inr:
  assumes "task_step fns self hs ev labels B S (lg0, st0, m0) (n0, t) = Inr (lg1, st1, m1)"
  shows "\<exists>x nm. task_logits_of self hs ev lg0 t = Inr (x, nm) \<and> lg1 = lg0 @ [x] \<and>
           (labels = None \<longrightarrow> st1 = st0) \<and> (labels \<noteq> None \<longrightarrow> loss st1 \<noteq> None)"
  using assms
  by (auto simp: task_step_def ebind_def Let_def dest: compute_loss_sets_loss
      split: sum.splits option.splits prod.splits)

lemma task_loop_logits:
  "task_loop fns self hs ev labels B S (lg0, st0, m0) (zip [n0..<n0 + length ts] ts) = Inr (lg, st, m)
   \<Longrightarrow> length lg = length lg0 + length ts \<and> take (length lg0) lg = lg0 \<and>
       (\<forall>k<length ts. \<exists>mm. task_logits_of self hs ev (take (length lg0 + k) lg) (ts ! k)
                              = Inr (lg ! (length lg0 + k), mm)) \<and>
       (labels = None \<longrightarrow> st = st0) \<and>
       (labels \<noteq> None \<longrightarrow> ts \<noteq> [] \<or> loss st0 \<noteq> None \<longrightarrow> loss st \<noteq> None)"
proof (induction ts arbitrary: lg0 st0 m0 n0)
  case Nil
  then show ?case by simp
next
  case (Cons t ts)
  have "[n0..<n0 + length (t # ts)] = n0 # [Suc n0..<Suc n0 + length ts]"
    by (subst upt_rec) simp
  then have z: "zip [n0..<n0 + length (t # ts)] (t # ts) = (n0, t) # zip [Suc n0..<Suc n0 + length ts] ts"
    by (simp only: zip_Cons_Cons)
  from Cons.prems obtain lg1 st1 m1 where
    step: "task_step fns self hs ev labels B S (lg0, st0, m0) (n0, t) = Inr (lg1, st1, m1)"
    and rest: "task_loop fns self hs ev labels B S (lg1, st1, m1)
                 (zip [Suc n0..<Suc n0 + length ts] ts) = Inr (lg, st, m)"
    unfolding z by (auto simp: ebind_def split: sum.splits)
  from task_step_Inr[OF step] obtain x nm where
    tl: "task_logits_of self hs ev lg0 t = Inr (x, nm)" and lg1: "lg1 = lg0 @ [x]"
    and s1: "labels = None \<longrightarrow> st1 = st0" and l1: "labels \<noteq> None \<longrightarrow> loss st1 \<noteq> None"
    by (elim exE conjE)
  note IH = Cons.IH[OF rest]
  have len: "length lg = length lg0 + length (t # ts)"
    using IH lg1 by simp
  have tk1: "take (length lg1) lg = lg1" using IH by simp
  have tk: "take (length lg0) lg = lg0"
  proof -
    have "take (length lg0) (take (length lg1) lg) = take (length lg0) lg1"
      using tk1 by simp
    then show ?thesis using lg1 by (simp add: min_def)
  qed
  have nth0: "lg ! length lg0 = x"
  proof -
    have "lg ! length lg0 = take (length lg1) lg ! length lg0"
      using lg1 by simp
    also have "\<dots> = lg1 ! length lg0"
      by (simp only: tk1)
    also have "\<dots> = x"
      by (simp add: lg1)
    finally show ?thesis .
  qed
  have ent: "\<exists>mm. task_logits_of self hs ev (take (length lg0 + k) lg) ((t # ts) ! k)
                              = Inr (lg ! (length lg0 + k), mm)"
    if "k < length (t # ts)" for k
  proof (cases k)
    case 0
    then show ?thesis using tl tk nth0 by auto
  next
    case (Suc j)
    then have "j < length ts" using that by simp
    then obtain mm where "task_logits_of self hs ev (take (length lg1 + j) lg) (ts ! j)
                              = Inr (lg ! (length lg1 + j), mm)"
      using IH by blast
    then show ?thesis using Suc lg1 by auto
  qed
  have st: "labels = None \<longrightarrow> st = st0" using IH s1 by simp
  have ls: "labels \<noteq> None \<longrightarrow> loss st \<noteq> None" using IH l1 by blast
  show ?case using len tk ent st ls by blast
qed

subsection \<open>Exceptions of the projection layer's forward\<close>

lemma ebind_no_exc:
  "m \<noteq> Inl (PyException msg) \<Longrightarrow> (\<And>x. f x \<noteq> Inl (PyException msg)) \<Longrightarrow>
   ebind m f \<noteq> Inl (PyException msg)"
  by (cases m) (simp_all add: ebind_def)

lemma getitem_shape_no_exc: "getitem_shape ixs sh \<noteq> Inl (PyException msg)"
  by (induction ixs sh rule: getitem_shape.induct)
     (auto simp: map_sum_def split: sum.splits)

lemma broadcast_rev_no_exc: "broadcast_rev xs ys \<noteq> Inl (PyException msg)"
  by (induction xs ys rule: broadcast_rev.induct)
     (auto simp: map_sum_def split: sum.splits)

lemma primitives_no_exc:
  "py_getitem xs i \<noteq> Inl (PyException msg)"
  "shape_at t k \<noteq> Inl (PyException msg)"
  "unsqueeze d t \<noteq> Inl (PyException msg)"
  "sum_dim add z d t \<noteq> Inl (PyException msg)"
  "expand sizes t \<noteq> Inl (PyException msg)"
  "reshape sh t \<noteq> Inl (PyException msg)"
  "view zs t \<noteq> Inl (PyException msg)"
  "permute perm t \<noteq> Inl (PyException msg)"
  "transpose_last2 t \<noteq> Inl (PyException msg)"
  "matmul a b \<noteq> Inl (PyException msg)"
  "Linear_forward lin x \<noteq> Inl (PyException msg)"
  "getitem ixs t \<noteq> Inl (PyException msg)"
  "getitem_ellipsis ixs t \<noteq> Inl (PyException msg)"
  "binop f u v \<noteq> Inl (PyException msg)"
  using getitem_shape_no_exc[of ixs "shape t" msg]
        getitem_shape_no_exc[of "replicate (ndim t - length ixs) All @ ixs" "shape t" msg]
        broadcast_rev_no_exc[of "rev (shape u)" "rev (shape v)" msg]
  by (auto simp: py_getitem_def shape_at_def unsqueeze_def sum_dim_def expand_def reshape_def
      view_def permute_def transpose_last2_def matmul_def Linear_forward_def getitem_def
      getitem_ellipsis_def binop_def broadcast_shapes_def Let_def map_sum_def
      split: sum.splits)

lemma ebind_Inl_iff: "ebind m f = Inl e \<longleftrightarrow> m = Inl e \<or> (\<exists>x. m = Inr x \<and> f x = Inl e)"
  by (cases m) (simp_all add: ebind_def)

lemma transpose_for_scores_no_exc: "transpose_for_scores attrs x \<noteq> Inl (PyException msg)"
  by (auto simp: transpose_for_scores_def Let_def ebind_Inl_iff primitives_no_exc)

lemma pool_event_tokens_no_exc:
  "pool_event_tokens self features ev n \<noteq> Inl (PyException msg)"
  by (cases ev) (auto simp: pool_event_tokens_def ebind_Inl_iff primitives_no_exc)

lemma relation_scores_no_exc: "relation_scores self features \<noteq> Inl (PyException msg)"
  by (cases "rel_attrs self")
     (auto simp: relation_scores_def Let_def ebind_Inl_iff primitives_no_exc
        transpose_for_scores_no_exc)

lemma cls_token_no_exc: "cls_token self features \<noteq> Inl (PyException msg)"
  by (auto simp: cls_token_def ebind_Inl_iff primitives_no_exc)

lemma post_process_no_exc: "post_process self x \<noteq> Inl (PyException msg)"
  by (cases "dense self")
     (auto simp: post_process_def Let_def ebind_Inl_iff primitives_no_exc)

lemma forward_no_exc:
  "RepresentationProjectionLayer_forward self features ev \<noteq> Inl (PyException msg)"
  by (auto simp: RepresentationProjectionLayer_forward_def ebind_Inl_iff primitives_no_exc
      pool_event_tokens_no_exc relation_scores_no_exc cls_token_no_exc post_process_no_exc
      split: if_splits)

lemma example_forward_reg_cls_no_labels:
  "forward probe_losses (example_model [''reg'', ''cls''] w) example_inputs_no_labels =
     Inr (\<lparr> out_loss = None,
            out_logits = [\<lparr> shape = [1, 1], elems = (\<lambda>idx. Fin 0) \<rparr>,
                          \<lparr> shape = [1, 2], elems = (\<lambda>idx. Fin 0) \<rparr>],
            out_hidden_states = None, out_attentions = None \<rparr>, [])"
proof -
  have e: "encoder (example_model [''reg'', ''cls''] w) = example_encoder"
    by (simp add: example_model_def)
  have t: "tasks (example_model [''reg'', ''cls''] w) = [''reg'', ''cls'']"
    by (simp add: example_model_def)
  have ld: "label_dictionary (example_model [''reg'', ''cls''] w)
      = [(''reg'', [''value'']), (''cls'', [''no'', ''yes''])]"
    by (simp add: example_model_def)
  have tr: "\<not> model_training (example_model [''reg'', ''cls''] w)"
    by (simp add: example_model_def)
  have z: "zip [0..<length [''reg'', ''cls'']] [''reg'', ''cls''] = [(0, ''reg''), (1, ''cls'')]"
    by (simp add: upt_rec)
  show ?thesis
    unfolding forward_def e t
    by (simp add: example_inputs_no_labels_def example_inputs_def
        example_kwargs[simplified example_encoder_def, simplified] ld tr z
        example_encoder_def ebind_def ndim_def
        task_step_def py_lookup_def example_logits_reg example_logits_cls)
qed

subsection \<open>Model construction on the example configuration\<close>

text \<open>
  The constructor succeeds on the example configuration and registers the two tasks in
  the declared order; a task whose name contains a dot, or is an attribute name of the
  module dict, is rejected by the module dict with \<open>KeyError\<close>; a dropout probability
  outside \<open>[0, 1]\<close> is rejected with \<open>ValueError\<close>.
\<close>

lemma example_layer_construction:
  "RepresentationProjectionLayer_init (example_config l) example_layer_init l False False False
     12 64 =
   Inr \<lparr> dropout = \<lparr> prob = 1 / 10, training = True, noise = (\<lambda>idx. True) \<rparr>,
         dense = Dense \<lparr> in_features = 1, out_features = 1,
                         weight = (\<lambda>out k. Fin 1), bias = (\<lambda>out. Fin 0) \<rparr>,
         layer_to_use = l, tokens = False, tagger = False, relations = False,
         hidden_size = 1, rel_attrs = None \<rparr>"
  by (simp add: RepresentationProjectionLayer_init_def nn_Dropout_def nn_Linear_def ebind_def
      example_config_def example_layer_init_def)

lemma example_head_construction:
  "ClassificationHead_init (example_config l) example_head_init n (- 1) =
   Inr \<lparr> ch_dropout = \<lparr> prob = 1 / 10, training = True, noise = (\<lambda>idx. True) \<rparr>,
         out_proj = \<lparr> in_features = 1, out_features = n,
                      weight = (\<lambda>out k. Fin 1), bias = (\<lambda>out. Fin 0) \<rparr> \<rparr>"
  by (simp add: ClassificationHead_init_def nn_Dropout_def nn_Linear_def ebind_def
      example_config_def example_head_init_def)

lemma example_model_construction:
  "\<not> isl (CnlpModelForClassification_init example_module_attrs (example_config (- 1))
      example_encoder (\<lambda>name. (example_layer_init, example_head_init)) None 1) \<and>
   map fst (feature_extractors (projr (CnlpModelForClassification_init example_module_attrs
      (example_config (- 1)) example_encoder (\<lambda>name. (example_layer_init, example_head_init))
      None 1))) = [''reg'', ''cls''] \<and>
   map fst (classifiers (projr (CnlpModelForClassification_init example_module_attrs
      (example_config (- 1)) example_encoder (\<lambda>name. (example_layer_init, example_head_init))
      None 1))) = [''reg'', ''cls'']"
proof -
  have c: "config_label_dictionary (example_config (- 1)) =
      [(''reg'', [''value'']), (''cls'', [''no'', ''yes''])]"
    "config_tagger (example_config (- 1)) = [''reg'' \<mapsto> False, ''cls'' \<mapsto> False]"
    "config_relations (example_config (- 1)) = [''reg'' \<mapsto> False, ''cls'' \<mapsto> False]"
    "config_layer (example_config (- 1)) = - 1"
    "config_tokens (example_config (- 1)) = False"
    "num_rel_attention_heads (example_config (- 1)) = 12"
    "rel_attention_head_dims (example_config (- 1)) = 64"
    by (simp_all add: example_config_def)
  show ?thesis
    by (simp add: CnlpModelForClassification_init_def c init_task_def py_lookup_def ebind_def
        example_layer_construction example_head_construction ModuleDict_setitem_def
        example_module_attrs_def example_encoder_def)
qed

lemma module_name_rejected:
  "isl (CnlpModelForClassification_init example_module_attrs
     ((example_config (- 1)) \<lparr> config_tagger := [name \<mapsto> False],
        config_relations := [name \<mapsto> False],
        config_label_dictionary := [(name, [''no'', ''yes''])] \<rparr>)
     example_encoder (\<lambda>name. (example_layer_init, example_head_init)) None 1) \<longleftrightarrow>
   name \<in> example_module_attrs \<or> CHR ''.'' \<in> set name \<or> name = []"
  "name \<in> example_module_attrs \<or> CHR ''.'' \<in> set name \<or> name = [] \<Longrightarrow>
   CnlpModelForClassification_init example_module_attrs
     ((example_config (- 1)) \<lparr> config_tagger := [name \<mapsto> False],
        config_relations := [name \<mapsto> False],
        config_label_dictionary := [(name, [''no'', ''yes''])] \<rparr>)
     example_encoder (\<lambda>name. (example_layer_init, example_head_init)) None 1 = Inl KeyError"
  by (auto simp: CnlpModelForClassification_init_def init_task_def py_lookup_def ebind_def
      ModuleDict_setitem_def example_config_def example_encoder_def
      RepresentationProjectionLayer_init_def ClassificationHead_init_def nn_Dropout_def
      nn_Linear_def)

lemma dropout_probability_rejected:
  "CnlpModelForClassification_init example_module_attrs
     ((example_config (- 1)) \<lparr> hidden_dropout_prob := 3 / 2 \<rparr>)
     example_encoder (\<lambda>name. (example_layer_init, example_head_init)) None 1 = Inl ValueError"
  by (simp add: CnlpModelForClassification_init_def init_task_def py_lookup_def ebind_def
      RepresentationProjectionLayer_init_def nn_Dropout_def example_config_def
      example_encoder_def)

section \<open>Properties of the specification\<close>

subsection \<open>Fan-in of a prior tagging task into a relation grid\<close>

text \<open>
  C1: the claim extends the feature vector of the pair \<open>(i, j)\<close> with token \<open>j\<close>'s prior
  logits, and so does the comment above the statements: the logits of each element
  of the sequence are to be concatenated to its variables and then broadcast down all
  the rows of the matrix.  The statements insert the new axis at position 2 and repeat along
  it, so the appended part is constant along the second token axis: the pair \<open>(i, j)\<close>
  receives token \<open>i\<close>'s logits (lemma \<open>fan_in_tagging_entries\<close>).  On a grid for one
  example of two tokens with one head, and a prior logit \<open>s\<close> for token \<open>s\<close>, the
  result has the claimed shape and keeps the features, but the pair \<open>(0, 1)\<close> receives
  0, the logit of token 0, where the claim gives 1, the logit of token 1.
\<close>

theorem fan_in_pair_receives_first_token_logits:
  "\<not> isl (predict_relations_with_previous_logits fanin_features [fanin_prior]) \<and>
   shape (fst (projr (predict_relations_with_previous_logits fanin_features [fanin_prior])))
     = [1, 2, 2, 2] \<and>
   elems (fst (projr (predict_relations_with_previous_logits fanin_features [fanin_prior])))
     [0, 0, 1, 0] = elems fanin_features [0, 0, 1, 0] \<and>
   elems fanin_prior [0, 0, 0] = 0 \<and> elems fanin_prior [0, 1, 0] = 1 \<and>
   elems (fst (projr (predict_relations_with_previous_logits fanin_features [fanin_prior])))
     [0, 0, 1, 1] = 0"
  by (simp add: predict_relations_with_previous_logits_def shape_at_def ndim_def fan_in_step_def
      ebind_def unsqueeze_def repeat_def cat_def Let_def fanin_features_def fanin_prior_def)

subsection \<open>Unsupported fan-in combinations\<close>

text \<open>
  C7: for a prior task whose logits are not of rank 3 and a relation grid (rank 4), and
  for any prior task and a per-token feature (rank 3), the augmentation step does not
  raise and returns the feature tensor itself, logging one diagnostic and nothing else;
  so a call in which every prior task is unsupported returns the feature tensor it
  was given, with one diagnostic per prior task.
\<close>

theorem fan_in_unsupported_passthrough:
  "((ndim features = 4 \<and> ndim prior \<noteq> 3) \<or> ndim features = 3 \<longrightarrow>
      fan_in_step seq_len (features, msgs) prior =
        Inr (features, msgs @ [if ndim features = 4 then RelationFanInNotImplemented (shape prior)
                               else SequenceFanInNotImplemented])) \<and>
   ((ndim features = 4 \<and> (\<forall>l\<in>set logits. ndim l \<noteq> 3)) \<or> ndim features = 3 \<longrightarrow>
      predict_relations_with_previous_logits features logits =
        Inr (features, map (\<lambda>l. if ndim features = 4 then RelationFanInNotImplemented (shape l)
                                 else SequenceFanInNotImplemented) logits))"
proof -
  have step: "(ndim features = 4 \<and> ndim prior \<noteq> 3) \<or> ndim features = 3 \<longrightarrow>
      fan_in_step seq_len (features, msgs) prior =
        Inr (features, msgs @ [if ndim features = 4 then RelationFanInNotImplemented (shape prior)
                               else SequenceFanInNotImplemented])"
    by (auto simp: fan_in_step_def)
  have call: "(ndim features = 4 \<and> (\<forall>l\<in>set logits. ndim l \<noteq> 3)) \<or> ndim features = 3 \<longrightarrow>
      predict_relations_with_previous_logits features logits =
        Inr (features, map (\<lambda>l. if ndim features = 4 then RelationFanInNotImplemented (shape l)
                                 else SequenceFanInNotImplemented) logits)"
    by (auto simp: predict_relations_with_previous_logits_def shape_at_def ebind_def
        fan_in_loop_rel_skip fan_in_loop_seq_skip)
  show ?thesis using step call by (rule conjI)
qed

theorem fan_in_unsupported_passthrough_witness:
  "ndim fanin_features = 4 \<and> ndim fanin_prior_cls = 2 \<and> ndim fanin_seq_features = 3 \<and>
   fan_in_step 2 (fanin_features, []) fanin_prior_cls =
     Inr (fanin_features, [RelationFanInNotImplemented [1, 3]]) \<and>
   predict_relations_with_previous_logits fanin_features [fanin_prior_cls] =
     Inr (fanin_features, [RelationFanInNotImplemented [1, 3]]) \<and>
   predict_relations_with_previous_logits fanin_seq_features [fanin_prior, fanin_prior_cls] =
     Inr (fanin_seq_features, [SequenceFanInNotImplemented, SequenceFanInNotImplemented])"
proof -
  have n4: "ndim fanin_features = 4"
    by (simp add: ndim_def fanin_features_def)
  have n2: "ndim fanin_prior_cls = 2"
    by (simp add: ndim_def fanin_prior_cls_def)
  have n3: "ndim fanin_seq_features = 3"
    by (simp add: ndim_def fanin_seq_features_def)
  have s: "shape fanin_prior_cls = [1, 3]"
    by (simp add: fanin_prior_cls_def)
  show ?thesis
    using fan_in_unsupported_passthrough [of fanin_features fanin_prior_cls 2 "[]" "[fanin_prior_cls]"]
      fan_in_unsupported_passthrough [of fanin_seq_features fanin_prior 2 "[]"
        "[fanin_prior, fanin_prior_cls]"]
      n4 n2 n3 s
    by simp
qed

subsection \<open>The encoder-argument filter\<close>

text \<open>
  C8: for every set of accepted parameter names and every keyword bag (a dict, so its
  keys are distinct), the filter returns exactly the entries of the bag whose key is
  accepted, in the bag's order and with their values, \<open>None\<close> included, and logs one
  diagnostic for exactly the entries whose key is not accepted and whose value is not
  \<open>None\<close>.  The function returns a fresh dict and the log; nothing else is written.
\<close>

theorem generalize_encoder_forward_kwargs_filter:
  assumes "distinct (map fst kwargs)"
  shows "generalize_encoder_forward_kwargs params cls kwargs =
     (filter (\<lambda>(k, v). k \<in> params) kwargs,
      map (\<lambda>(k, v). ParameterNotPresent k cls)
          (filter (\<lambda>(k, v). k \<notin> params \<and> v \<noteq> None) kwargs))"
  using kwargs_loop_filter [of "[]" kwargs params cls "[]"] assms
  by (simp add: generalize_encoder_forward_kwargs_def)

theorem generalize_encoder_forward_kwargs_filter_witness:
  "distinct (map fst kwargs_example) \<and>
   generalize_encoder_forward_kwargs params_example ''DistilBertModel'' kwargs_example =
     ([(''attention_mask'', Some 1), (''head_mask'', None), (''return_dict'', Some 3)],
      [ParameterNotPresent ''token_type_ids'' ''DistilBertModel''])"
proof -
  have d: "distinct (map fst kwargs_example)"
    by (simp add: kwargs_example_def)
  show ?thesis
    using generalize_encoder_forward_kwargs_filter [OF d, of params_example "''DistilBertModel''"] d
    by (simp add: kwargs_example_def params_example_def)
qed

subsection \<open>Relation mode of the representation projection\<close>

text \<open>
  C3, as stated, fails: the three statements after the mode branches (dropout, dense,
  tanh) run in relation mode as in every other mode; only \<open>dense\<close> is the identity
  there.  On a relation layer in evaluation mode with one head of size 1 and unit
  weights, the single hidden value 1 gives the score \<open>1 * 1 / sqrt 1 = 1\<close>, and
  \<^verbatim>\<open>forward\<close> returns \<open>tanh 1\<close>, which is not 1.
\<close>

theorem relation_scores_untransformed_counterexample:
  "\<not> isl (relation_scores relation_layer [relation_hidden]) \<and>
   elems (projr (relation_scores relation_layer [relation_hidden])) [0, 0, 0, 0] = Fin 1 \<and>
   \<not> isl (RepresentationProjectionLayer_forward relation_layer [relation_hidden] None) \<and>
   elems (projr (RepresentationProjectionLayer_forward relation_layer [relation_hidden] None))
     [0, 0, 0, 0] = Fin (tanh 1) \<and>
   elems (projr (RepresentationProjectionLayer_forward relation_layer [relation_hidden] None))
     [0, 0, 0, 0] \<noteq> elems (projr (relation_scores relation_layer [relation_hidden])) [0, 0, 0, 0]"
proof -
  have at: "rel_attrs relation_layer = Some \<lparr> num_attention_heads = 1, attention_head_size = 1,
      all_head_size = 1, query = example_linear 1 1, key = example_linear 1 1 \<rparr>"
    by (simp add: relation_layer_def)
  have g: "py_getitem [relation_hidden] (layer_to_use relation_layer) = Inr relation_hidden"
    by (simp add: py_getitem_def relation_layer_def)
  have sh: "shape relation_hidden = [1, 1, 1]"
    by (simp add: relation_hidden_def)
  obtain q k x where q: "Linear_forward (example_linear 1 1) relation_hidden = Inr q"
    and k: "Linear_forward (example_linear 1 1) relation_hidden = Inr k"
    and x: "relation_scores relation_layer [relation_hidden] = Inr x"
    and sx: "shape x = [1, 1, 1, 1]"
    and ex: "\<forall>b i j h. i < 1 \<longrightarrow> j < 1 \<longrightarrow> h < 1 \<longrightarrow>
              elems x [b, i, j, h] =
                fdiv (fsum (map (\<lambda>d. fmul (elems q [b, i, h * 1 + d]) (elems k [b, j, h * 1 + d]))
                                [0..<1]))
                     (Fin (sqrt (real 1)))"
    using relation_scores_entries[OF at g sh, of 1 1]
    by (auto simp: example_linear_def)
  have qv: "elems q [0, 0, 0] = Fin 1"
    using q by (auto simp: Linear_forward_def ndim_def relation_hidden_def example_linear_def fsum_def)
  have kv: "elems k [0, 0, 0] = Fin 1"
    using k by (auto simp: Linear_forward_def ndim_def relation_hidden_def example_linear_def fsum_def)
  have xv: "elems x [0, 0, 0, 0] = Fin 1"
    using ex qv kv by (simp add: fsum_def)
  have f0: "py_getitem [relation_hidden] 0 = Inr relation_hidden"
    by (simp add: py_getitem_def)
  have fw: "RepresentationProjectionLayer_forward relation_layer [relation_hidden] None =
           Inr (tmap ftanh (Dropout_forward (dropout relation_layer) x))"
    by (rule forward_relation_mode[OF _ _ _ _ f0 _ x])
       (simp_all add: relation_layer_def ndim_def relation_hidden_def)
  have fv: "elems (tmap ftanh (Dropout_forward (dropout relation_layer) x)) [0, 0, 0, 0] = Fin (tanh 1)"
    using xv by (simp add: tmap_def Dropout_forward_def relation_layer_def example_dropout_def)
  show ?thesis
    using x xv fw fv tanh_one_neq by simp
qed

text \<open>
  C3, amended: in relation mode, with hidden states of shape (batch, seq, hidden) and
  query and key projections to \<open>heads * head_dim\<close> features, the scores computed are
  the scaled pairwise dot products, \<open>score (b, i, j, h) = (query_i . key_j) / sqrt head_dim\<close>
  over the features of head \<open>h\<close>, arranged as (batch, seq, seq, heads); and
  \<^verbatim>\<open>forward\<close> returns the hyperbolic tangent of the dropout of these scores (in
  evaluation mode: the hyperbolic tangent of the scores).  The dropout and the
  hyperbolic tangent are applied in relation mode too; only the linear transform is
  the identity there.
\<close>

theorem relation_mode_returns_tanh_of_scores:
  assumes "\<not> tokens self" and "\<not> tagger self" and "relations self" and "dense self = Identity"
    and "py_getitem features 0 = Inr f0" and "1 < ndim f0"
    and "rel_attrs self = Some attrs"
    and "py_getitem features (layer_to_use self) = Inr hid" and "shape hid = [B, S, H]"
    and "in_features (query attrs) = H" and "in_features (key attrs) = H"
    and "out_features (query attrs) = nh * hs" and "out_features (key attrs) = nh * hs"
    and "num_attention_heads attrs = nh" and "attention_head_size attrs = hs"
  shows "\<exists>q k x. Linear_forward (query attrs) hid = Inr q \<and>
           Linear_forward (key attrs) hid = Inr k \<and>
           relation_scores self features = Inr x \<and> shape x = [B, S, S, nh] \<and>
           (\<forall>b i j h. i < S \<longrightarrow> j < S \<longrightarrow> h < nh \<longrightarrow>
              elems x [b, i, j, h] =
                fdiv (fsum (map (\<lambda>d. fmul (elems q [b, i, h * hs + d]) (elems k [b, j, h * hs + d]))
                                [0..<hs]))
                     (Fin (sqrt (real hs)))) \<and>
           RepresentationProjectionLayer_forward self features event_tokens =
             Inr (tmap ftanh (Dropout_forward (dropout self) x)) \<and>
           (\<not> training (dropout self) \<longrightarrow>
              RepresentationProjectionLayer_forward self features event_tokens =
                Inr (tmap ftanh x))"
proof -
  obtain q k x where q: "Linear_forward (query attrs) hid = Inr q"
    and k: "Linear_forward (key attrs) hid = Inr k"
    and x: "relation_scores self features = Inr x" and sx: "shape x = [B, S, S, nh]"
    and ex: "\<forall>b i j h. i < S \<longrightarrow> j < S \<longrightarrow> h < nh \<longrightarrow>
              elems x [b, i, j, h] =
                fdiv (fsum (map (\<lambda>d. fmul (elems q [b, i, h * hs + d]) (elems k [b, j, h * hs + d]))
                                [0..<hs]))
                     (Fin (sqrt (real hs)))"
    using relation_scores_entries[OF assms(7-15)] by blast
  have fw: "RepresentationProjectionLayer_forward self features event_tokens =
             Inr (tmap ftanh (Dropout_forward (dropout self) x))"
    by (rule forward_relation_mode[OF assms(1-6) x])
  have ev: "\<not> training (dropout self) \<longrightarrow>
              RepresentationProjectionLayer_forward self features event_tokens = Inr (tmap ftanh x)"
    using fw by (simp add: Dropout_forward_def)
  show ?thesis using q k x sx ex fw ev by blast
qed

theorem relation_mode_returns_tanh_of_scores_witness:
  "\<not> tokens relation_layer \<and> \<not> tagger relation_layer \<and> relations relation_layer \<and>
   dense relation_layer = Identity \<and>
   py_getitem [relation_hidden] (layer_to_use relation_layer) = Inr relation_hidden \<and>
   shape relation_hidden = [1, 1, 1] \<and>
   \<not> training (dropout relation_layer) \<and>
   shape (projr (relation_scores relation_layer [relation_hidden])) = [1, 1, 1, 1] \<and>
   RepresentationProjectionLayer_forward relation_layer [relation_hidden] None =
     Inr (tmap ftanh (projr (relation_scores relation_layer [relation_hidden])))"
proof -
  have a: "\<not> tokens relation_layer" "\<not> tagger relation_layer" "relations relation_layer"
    "dense relation_layer = Identity"
    by (simp_all add: relation_layer_def)
  have f0: "py_getitem [relation_hidden] 0 = Inr relation_hidden"
    by (simp add: py_getitem_def)
  have n: "1 < ndim relation_hidden"
    by (simp add: ndim_def relation_hidden_def)
  have at: "rel_attrs relation_layer = Some \<lparr> num_attention_heads = 1, attention_head_size = 1,
      all_head_size = 1, query = example_linear 1 1, key = example_linear 1 1 \<rparr>"
    by (simp add: relation_layer_def)
  have g: "py_getitem [relation_hidden] (layer_to_use relation_layer) = Inr relation_hidden"
    by (simp add: py_getitem_def relation_layer_def)
  have sh: "shape relation_hidden = [1, 1, 1]"
    by (simp add: relation_hidden_def)
  have tr: "\<not> training (dropout relation_layer)"
    by (simp add: relation_layer_def example_dropout_def)
  obtain x where x: "relation_scores relation_layer [relation_hidden] = Inr x"
    and sx: "shape x = [1, 1, 1, 1]"
    and fw: "\<not> training (dropout relation_layer) \<longrightarrow>
       RepresentationProjectionLayer_forward relation_layer [relation_hidden] None =
         Inr (tmap ftanh x)"
    using relation_mode_returns_tanh_of_scores[OF a f0 n at g sh, of 1 1 None]
    by (auto simp: example_linear_def)
  show ?thesis using a g sh tr x sx fw by simp
qed

subsection \<open>Token-pooling mode of the representation projection\<close>

text \<open>
  C4, as stated, fails in both halves.  There is no guard: with a mask that selects no
  position both the masked sum and the count are 0, the division is carried out,
  nothing is raised, and the quotient \<open>0 / 0\<close>, not-a-number, passes through the
  linear transform and the hyperbolic tangent into the returned feature.  And the
  masked sum is computed by multiplying every hidden entry by its mask entry: an
  infinite hidden value at a position the mask does not select gives
  \<open>inf * 0\<close>, not-a-number, so with the hidden values \<open>inf, 2\<close> and a mask that selects
  the second token only the pooled value is not-a-number, where the mean over the masked
  positions is 2.
\<close>

theorem token_pooling_empty_mask_counterexample:
  "\<not> isl (pool_event_tokens pooling_layer [pooling_hidden] (Some mask_none) 2) \<and>
   elems (projr (pool_event_tokens pooling_layer [pooling_hidden] (Some mask_none) 2)) [0, 0] = NaN \<and>
   \<not> isl (RepresentationProjectionLayer_forward pooling_layer [pooling_hidden] (Some mask_none)) \<and>
   elems (projr (RepresentationProjectionLayer_forward pooling_layer [pooling_hidden]
     (Some mask_none))) [0, 0] = NaN \<and>
   elems mask_second [0, 0] = 0 \<and> elems mask_second [0, 1] = 1 \<and>
   elems pooling_hidden_inf [0, 1, 0] = Fin 2 \<and>
   \<not> isl (pool_event_tokens pooling_layer [pooling_hidden_inf] (Some mask_second) 2) \<and>
   elems (projr (pool_event_tokens pooling_layer [pooling_hidden_inf] (Some mask_second) 2)) [0, 0]
     = NaN"
proof -
  have f0: "py_getitem [pooling_hidden] 0 = Inr pooling_hidden"
    by (simp add: py_getitem_def)
  have fl: "py_getitem [pooling_hidden] (layer_to_use pooling_layer) = Inr pooling_hidden"
    by (simp add: py_getitem_def pooling_layer_def example_extractor_def)
  have sh: "shape pooling_hidden = [1, 2, 1]"
    by (simp add: pooling_hidden_def)
  have hz: "hidden_size pooling_layer = 1"
    by (simp add: pooling_layer_def example_extractor_def)
  have sm: "shape mask_none = [1, 2]"
    by (simp add: mask_none_def)
  have tk: "tokens pooling_layer"
    by (simp add: pooling_layer_def)
  obtain x where x: "pool_event_tokens pooling_layer [pooling_hidden] (Some mask_none) 2 = Inr x"
    and sx: "shape x = [1, 1]"
    and ex: "\<forall>b h. b < 1 \<longrightarrow> h < 1 \<longrightarrow>
        elems x [b, h] =
          fdiv (fsum (map (\<lambda>s. fmul (elems pooling_hidden [b, s, h])
                                  (to_float (elems mask_none [b, s]))) [0..<2]))
               (to_float (sum_list (map (\<lambda>s. elems mask_none [b, s]) [0..<2])))"
    using pool_event_tokens_entries[OF f0 sh fl sh hz sm] by blast
  have u: "[0..<2] = [0, Suc 0]"
    by (simp add: upt_rec)
  have xv: "elems x [0, 0] = NaN"
    using ex
    by (simp add: u fsum_def to_float_def mask_none_def pooling_hidden_def signed_inf_def)
  have fw: "RepresentationProjectionLayer_forward pooling_layer [pooling_hidden] (Some mask_none) =
      post_process pooling_layer x"
    using forward_tokens_mode[OF tk f0 sh, of "Some mask_none"] x by (simp add: ebind_def)
  have pp: "post_process pooling_layer x =
      Inr (tmap ftanh \<lparr> shape = [1, 1],
             elems = (\<lambda>idx. fadd
                        (fsum (map (\<lambda>k. fmul (elems x (butlast idx @ [k])) (Fin 1)) [0..<1]))
                        (Fin 0)) \<rparr>)"
    using sx
    by (simp add: post_process_def pooling_layer_def example_extractor_def Dropout_forward_def
        example_dropout_def Linear_forward_def ndim_def example_linear_def ebind_def)
  have g0: "py_getitem [pooling_hidden_inf] 0 = Inr pooling_hidden_inf"
    by (simp add: py_getitem_def)
  have gl: "py_getitem [pooling_hidden_inf] (layer_to_use pooling_layer) = Inr pooling_hidden_inf"
    by (simp add: py_getitem_def pooling_layer_def example_extractor_def)
  have si: "shape pooling_hidden_inf = [1, 2, 1]"
    by (simp add: pooling_hidden_inf_def)
  have ss: "shape mask_second = [1, 2]"
    by (simp add: mask_second_def)
  obtain y where y: "pool_event_tokens pooling_layer [pooling_hidden_inf] (Some mask_second) 2 = Inr y"
    and ey: "\<forall>b h. b < 1 \<longrightarrow> h < 1 \<longrightarrow>
        elems y [b, h] =
          fdiv (fsum (map (\<lambda>s. fmul (elems pooling_hidden_inf [b, s, h])
                                  (to_float (elems mask_second [b, s]))) [0..<2]))
               (to_float (sum_list (map (\<lambda>s. elems mask_second [b, s]) [0..<2])))"
    using pool_event_tokens_entries[OF g0 si gl si hz ss] by blast
  have yv: "elems y [0, 0] = NaN"
    using ey
    by (simp add: u fsum_def to_float_def mask_second_def pooling_hidden_inf_def signed_inf_def)
  have m: "elems mask_second [0, 0] = 0 \<and> elems mask_second [0, 1] = 1 \<and>
      elems pooling_hidden_inf [0, 1, 0] = Fin 2"
    by (simp add: mask_second_def pooling_hidden_inf_def)
  show ?thesis
    using x xv fw pp y yv m by (simp add: tmap_def fsum_def)
qed

text \<open>
  C4, amended: in token-pooling mode, with hidden states of shape (batch, seq, hidden),
  a 0/1 mask of shape (batch, seq) and hidden entries that are finite at the positions
  the mask does not select, the pooled feature to which \<^verbatim>\<open>forward\<close> applies its
  post-processing is, for every example whose mask selects at least one position, the
  mean of the chosen layer's hidden vectors over the masked positions: the float sum
  over the masked positions divided by their number (for finite hidden entries, the
  real-number mean).  For an example whose mask selects no position the division by
  the zero count is carried out unguarded: nothing is raised and every component of
  the pooled feature is not-a-number.
\<close>

theorem token_pooling_mean_or_nan:
  assumes "tokens self"
    and "py_getitem features 0 = Inr f0" and "shape f0 = [B, S, H]"
    and "py_getitem features (layer_to_use self) = Inr fl" and "shape fl = [B, S, H]"
    and "hidden_size self = H" and "shape ev = [B, S]"
    and "\<forall>b<B. \<forall>s<S. elems ev [b, s] = 0 \<or> elems ev [b, s] = 1"
    and "\<forall>b<B. \<forall>s<S. \<forall>h<H. elems ev [b, s] = 0 \<longrightarrow> (\<exists>v. elems fl [b, s, h] = Fin v)"
  shows "\<exists>x. pool_event_tokens self features (Some ev) S = Inr x \<and> shape x = [B, H] \<and>
      RepresentationProjectionLayer_forward self features (Some ev) = post_process self x \<and>
      (\<forall>b<B. \<forall>h<H. elems x [b, h] =
         (if filter (\<lambda>s. elems ev [b, s] = 1) [0..<S] = [] then NaN
          else fdiv (fsum (map (\<lambda>s. elems fl [b, s, h])
                            (filter (\<lambda>s. elems ev [b, s] = 1) [0..<S])))
                    (Fin (real (length (filter (\<lambda>s. elems ev [b, s] = 1) [0..<S])))))) \<and>
      (\<forall>b<B. \<forall>h<H. (\<forall>s<S. elems fl [b, s, h] = Fin (g b s h)) \<longrightarrow>
         elems x [b, h] =
         (if {s. s < S \<and> elems ev [b, s] = 1} = {} then NaN
          else Fin ((\<Sum>s\<in>{s. s < S \<and> elems ev [b, s] = 1}. g b s h)
                    / real (card {s. s < S \<and> elems ev [b, s] = 1}))))"
proof -
  obtain x where x: "pool_event_tokens self features (Some ev) S = Inr x"
    and sx: "shape x = [B, H]"
    and ex: "\<forall>b h. b < B \<longrightarrow> h < H \<longrightarrow>
        elems x [b, h] =
          fdiv (fsum (map (\<lambda>s. fmul (elems fl [b, s, h]) (to_float (elems ev [b, s]))) [0..<S]))
               (to_float (sum_list (map (\<lambda>s. elems ev [b, s]) [0..<S])))"
    using pool_event_tokens_entries[OF assms(2-7)] by blast
  have fw: "RepresentationProjectionLayer_forward self features (Some ev) = post_process self x"
    using forward_tokens_mode[OF assms(1-3), of "Some ev"] x by (simp add: ebind_def)
  have raw: "elems x [b, h] =
          fdiv (fsum (map (\<lambda>s. fmul (elems fl [b, s, h]) (to_float (elems ev [b, s]))) [0..<S]))
               (to_float (sum_list (map (\<lambda>s. elems ev [b, s]) [0..<S])))"
    if "b < B" and "h < H" for b h
    using ex that by simp
  have flt: "elems x [b, h] =
         (if filter (\<lambda>s. elems ev [b, s] = 1) [0..<S] = [] then NaN
          else fdiv (fsum (map (\<lambda>s. elems fl [b, s, h])
                            (filter (\<lambda>s. elems ev [b, s] = 1) [0..<S])))
                    (Fin (real (length (filter (\<lambda>s. elems ev [b, s] = 1) [0..<S])))))"
    if b: "b < B" and h: "h < H" for b h
  proof -
    have m: "\<forall>s<S. elems ev [b, s] = 0 \<or> elems ev [b, s] = 1"
      using assms(8) b by simp
    have f: "\<forall>s<S. elems ev [b, s] = 0 \<longrightarrow> (\<exists>v. elems fl [b, s, h] = Fin v)"
      using assms(9) b h by simp
    show ?thesis
      unfolding raw[OF b h]
      by (rule masked_float_mean[OF m f])
  qed
  have rl: "elems x [b, h] =
         (if {s. s < S \<and> elems ev [b, s] = 1} = {} then NaN
          else Fin ((\<Sum>s\<in>{s. s < S \<and> elems ev [b, s] = 1}. g b s h)
                    / real (card {s. s < S \<and> elems ev [b, s] = 1})))"
    if b: "b < B" and h: "h < H" and fin: "\<forall>s<S. elems fl [b, s, h] = Fin (g b s h)" for b h
  proof -
    have m: "\<forall>s<S. elems ev [b, s] = 0 \<or> elems ev [b, s] = 1"
      using assms(8) b by simp
    have c: "map (\<lambda>s. fmul (elems fl [b, s, h]) (to_float (elems ev [b, s]))) [0..<S] =
             map (\<lambda>s. fmul (Fin (g b s h)) (to_float (elems ev [b, s]))) [0..<S]"
      using fin by (intro map_cong) simp_all
    show ?thesis
      unfolding raw[OF b h] c by (rule masked_mean[OF m, of "\<lambda>s. g b s h"])
  qed
  show ?thesis using x sx fw flt rl by blast
qed

theorem token_pooling_mean_or_nan_witness:
  "tokens pooling_layer \<and> shape pooling_hidden = [1, 2, 1] \<and> shape mask_all = [1, 2] \<and>
   \<not> isl (pool_event_tokens pooling_layer [pooling_hidden] (Some mask_all) 2) \<and>
   elems (projr (pool_event_tokens pooling_layer [pooling_hidden] (Some mask_all) 2)) [0, 0] = Fin 3 \<and>
   RepresentationProjectionLayer_forward pooling_layer [pooling_hidden] (Some mask_all) =
     post_process pooling_layer
       (projr (pool_event_tokens pooling_layer [pooling_hidden] (Some mask_all) 2))"
proof -
  have f0: "py_getitem [pooling_hidden] 0 = Inr pooling_hidden"
    by (simp add: py_getitem_def)
  have fl: "py_getitem [pooling_hidden] (layer_to_use pooling_layer) = Inr pooling_hidden"
    by (simp add: py_getitem_def pooling_layer_def example_extractor_def)
  have sh: "shape pooling_hidden = [1, 2, 1]"
    by (simp add: pooling_hidden_def)
  have hz: "hidden_size pooling_layer = 1"
    by (simp add: pooling_layer_def example_extractor_def)
  have sm: "shape mask_all = [1, 2]"
    by (simp add: mask_all_def)
  have tk: "tokens pooling_layer"
    by (simp add: pooling_layer_def)
  have m01: "\<forall>b<1. \<forall>s<2. elems mask_all [b, s] = 0 \<or> elems mask_all [b, s] = 1"
    by (simp add: mask_all_def)
  have fin: "\<forall>b<1. \<forall>s<2. \<forall>h<1.
      elems mask_all [b, s] = 0 \<longrightarrow> (\<exists>v. elems pooling_hidden [b, s, h] = Fin v)"
    by (simp add: mask_all_def)
  obtain x where x: "pool_event_tokens pooling_layer [pooling_hidden] (Some mask_all) 2 = Inr x"
    and fw: "RepresentationProjectionLayer_forward pooling_layer [pooling_hidden] (Some mask_all) =
               post_process pooling_layer x"
    and ex: "\<forall>b<1. \<forall>h<1. elems x [b, h] =
         (if filter (\<lambda>s. elems mask_all [b, s] = 1) [0..<2] = [] then NaN
          else fdiv (fsum (map (\<lambda>s. elems pooling_hidden [b, s, h])
                            (filter (\<lambda>s. elems mask_all [b, s] = 1) [0..<2])))
                    (Fin (real (length (filter (\<lambda>s. elems mask_all [b, s] = 1) [0..<2])))))"
    using token_pooling_mean_or_nan[where g = "\<lambda>b s h. if s = 0 then 2 else 4",
        OF tk f0 sh fl sh hz sm m01 fin]
    by (elim exE conjE)
  have u: "[0..<2] = [0, Suc 0]"
    by (simp add: upt_rec)
  have "elems x [0, 0] = Fin 3"
    using ex by (simp add: u mask_all_def pooling_hidden_def fsum_def)
  then show ?thesis using tk sh sm x fw by simp
qed

subsection \<open>Label addressing of a plain classification task\<close>

text \<open>
  C2: the claim locates the labels of a plain classification task by the running
  cursor, as the tagging and the relation branch of \<^verbatim>\<open>compute_loss\<close> do.  The
  classification branch increments the cursor, but it indexes the label tensor with
  \<^verbatim>\<open>task_ind\<close>, the position of the task in the declared order (lemmas
  \<open>classification_branch\<close> and \<open>classification_task_labels_entries\<close>).  With a relation
  task before it the two differ: on the model with the tasks \<open>rel, cls\<close>, sequence
  length 2 and a rank-3 label tensor, the relation task takes the columns 0 and 1 and
  leaves the cursor at 2, where the label of the classification task stands (class 1);
  the classification task, of index 1, takes column 1 under the secondary index 0, a
  cell of the relation task's slice (class 0).  The forward pass returns the loss
  \<open>10 + 1 * 10\<close>, where the labels at the cursor give \<open>10 + 1 * 20\<close>.
\<close>

theorem classification_after_relation_reads_relation_cell:
  "compute_loss grid_probe_losses grid_model \<lparr> shape = [1, 2, 2, 2], elems = (\<lambda>idx. Fin 0) \<rparr>
      grid_labels 0 2 1 2 \<lparr> loss = None, task_label_ind = 0 \<rparr>
     = Inr \<lparr> loss = Some (Fin 10), task_label_ind = 2 \<rparr> \<and>
   shape (projr (relation_task_labels grid_labels \<lparr> loss = None, task_label_ind = 0 \<rparr> 2))
     = [1, 2, 2] \<and>
   elems (projr (relation_task_labels grid_labels \<lparr> loss = None, task_label_ind = 0 \<rparr> 2)) [0, 0, 1]
     = elems grid_labels [0, 0, 1] \<and>
   elems (projr (classification_task_labels grid_labels 1)) [0] = elems grid_labels [0, 0, 1] \<and>
   elems grid_labels [0, 0, 1] = 0 \<and> elems grid_labels [0, 0, 2] = 1 \<and>
   compute_loss grid_probe_losses grid_model example_logits grid_labels 1 2 1 2
      \<lparr> loss = Some (Fin 10), task_label_ind = 2 \<rparr>
     = Inr \<lparr> loss = Some (Fin 20), task_label_ind = 3 \<rparr> \<and>
   \<not> isl (forward grid_probe_losses grid_model grid_inputs) \<and>
   out_loss (fst (projr (forward grid_probe_losses grid_model grid_inputs))) = Some (Fin 20)"
proof -
  have a: "compute_loss grid_probe_losses grid_model
      \<lparr> shape = [1, 2, 2, 2], elems = (\<lambda>idx. Fin 0) \<rparr>
      grid_labels 0 2 1 2 \<lparr> loss = None, task_label_ind = 0 \<rparr>
     = Inr \<lparr> loss = Some (Fin 10), task_label_ind = 2 \<rparr>"
    by (rule grid_loss_rel) simp_all
  have b: "shape (projr (relation_task_labels grid_labels \<lparr> loss = None, task_label_ind = 0 \<rparr> 2))
       = [1, 2, 2] \<and>
     elems (projr (relation_task_labels grid_labels \<lparr> loss = None, task_label_ind = 0 \<rparr> 2)) [0, 0, 1]
       = elems grid_labels [0, 0, 1]"
    by (simp add: relation_task_labels_def getitem_def grid_labels_def)
  have c: "elems (projr (classification_task_labels grid_labels 1)) [0] = elems grid_labels [0, 0, 1]"
    by (simp add: classification_task_labels_def ndim_def getitem_def grid_labels_def)
  have d: "elems grid_labels [0, 0, 1] = 0 \<and> elems grid_labels [0, 0, 2] = 1"
    by (simp add: grid_labels_def)
  have e: "compute_loss grid_probe_losses grid_model example_logits grid_labels 1 2 1 2
      \<lparr> loss = Some (Fin 10), task_label_ind = 2 \<rparr>
     = Inr \<lparr> loss = Some (Fin 20), task_label_ind = 3 \<rparr>"
    using grid_loss_cls[of 2 example_logits 1 2] by simp
  obtain out where f: "forward grid_probe_losses grid_model grid_inputs = Inr (out, [])"
    and l: "out_loss out = Some (Fin 20)"
    using grid_forward by (elim exE conjE)
  show ?thesis using a b c d e f l by simp
qed

subsection \<open>Loss aggregation\<close>

text \<open>
  C5: the claim weights the last task by \<open>final_task_weight\<close>.  The code applies a
  weight only when it adds to a running loss; the first contribution is stored as it
  is, whatever the task's index and the weight.  With a single task, which is first
  and last at once, the weight is never applied: on the example model with the one
  task \<open>cls\<close>, per-task loss 10 and \<open>final_task_weight = 1/2\<close>, the aggregated loss
  is 10 where the claim gives 5.
\<close>

theorem single_task_final_weight_not_applied:
  "accumulate_loss self task_ind task_loss \<lparr> loss = None, task_label_ind = c \<rparr> =
     \<lparr> loss = Some task_loss, task_label_ind = c \<rparr> \<and>
   tasks (example_model [''cls''] (1 / 2)) = [''cls''] \<and>
   final_task_weight (example_model [''cls''] (1 / 2)) = 1 / 2 \<and>
   \<not> isl (forward probe_losses (example_model [''cls''] (1 / 2)) example_inputs) \<and>
   out_loss (fst (projr (forward probe_losses (example_model [''cls''] (1 / 2)) example_inputs)))
     = Some (Fin 10)"
  by (simp add: example_forward_cls accumulate_loss_def) (simp add: example_model_def)

subsection \<open>The label cursor\<close>

text \<open>
  C10: the cursor moves as the claim states (lemma \<open>cursor_advance\<close>): a regression task
  leaves it unchanged, a relation task advances it by the sequence length, every other
  task by 1; and a tagging or relation task that follows a regression task is located
  as if the regression task occupied no column.  The conclusion fails for a plain
  classification task, because its branch does not read the cursor (see C2): with the
  tasks \<open>reg, cls\<close> the regression task leaves the cursor at 0, and the classification
  task, of index 1, takes column 1 of the labels (class 1; the aggregated loss is
  \<open>0 + 1 * 20\<close>).  Were it located as if the regression task occupied no column, it
  would take column 0 (class 0), where the cursor stands, as it does in the model
  without the regression task (loss 10).
\<close>

theorem classification_after_regression_skips_a_column:
  "compute_loss probe_losses (example_model [''reg'', ''cls''] 1) example_logits example_labels
      0 1 1 2 \<lparr> loss = None, task_label_ind = 0 \<rparr>
     = Inr \<lparr> loss = Some (Fin 0), task_label_ind = 0 \<rparr> \<and>
   elems example_labels [0, 0] = 0 \<and> elems example_labels [0, 1] = 1 \<and>
   elems (projr (classification_task_labels example_labels 1)) [0] = 1 \<and>
   elems (projr (classification_task_labels example_labels 0)) [0] = 0 \<and>
   \<not> isl (forward probe_losses (example_model [''reg'', ''cls''] 1) example_inputs) \<and>
   out_loss (fst (projr (forward probe_losses (example_model [''reg'', ''cls''] 1) example_inputs)))
     = Some (Fin 20) \<and>
   \<not> isl (forward probe_losses (example_model [''cls''] 1) example_inputs) \<and>
   out_loss (fst (projr (forward probe_losses (example_model [''cls''] 1) example_inputs)))
     = Some (Fin 10)"
  by (simp add: example_forward_reg_cls example_forward_cls example_loss_reg_first)
     (simp add: classification_task_labels_def ndim_def example_labels_def getitem_def)

subsection \<open>Construction-time validation\<close>

text \<open>
  C6, as stated, fails in its only-if direction: the constructor builds its library
  modules before and between the two checks, and their constructors validate their
  own arguments.  With consistent flags and a dropout probability of \<open>3/2\<close> the
  construction raises \<open>ValueError\<close> in \<^verbatim>\<open>nn.Dropout\<close>; in relation mode with a
  positive head count and a head size of \<open>-1\<close>, or in any mode with a hidden size of
  \<open>-1\<close>, it raises \<open>RuntimeError\<close> in \<^verbatim>\<open>nn.Linear\<close>.
\<close>

theorem construction_library_error_counterexample:
  "RepresentationProjectionLayer_init ((example_config (- 1)) \<lparr> hidden_dropout_prob := 3 / 2 \<rparr>)
      example_layer_init (- 1) False False False 12 64 = Inl ValueError \<and>
   RepresentationProjectionLayer_init (example_config (- 1)) example_layer_init (- 1)
      False False True 12 (- 1) = Inl RuntimeError \<and>
   RepresentationProjectionLayer_init ((example_config (- 1)) \<lparr> config_hidden_size := - 1 \<rparr>)
      example_layer_init (- 1) False False False 12 64 = Inl RuntimeError"
  by (simp add: RepresentationProjectionLayer_init_def nn_Dropout_def nn_Linear_def ebind_def
      example_config_def)

text \<open>
  C6, amended: constructing a representation projection layer raises, at construction
  time, whenever the token-pooling flag is combined with the tagger or the relation
  flag, or relation mode is requested with \<open>num_attention_heads \<le> 0\<close>; it also raises
  when a library module rejects its arguments, that is when the dropout probability is
  outside \<open>[0, 1]\<close>, the hidden size is negative or, in relation mode, the head size is
  negative; and it raises in no other case.  A layer that was constructed carries the flags it
  was given, which are therefore consistent, and in relation mode a positive head
  count; \<^verbatim>\<open>forward\<close> never raises the configuration exception, whatever the layer and
  its input; and constructing the model raises \<open>ValueError\<close> when the chosen layer
  index exceeds the encoder's depth.
\<close>

theorem construction_validation:
  "(isl (RepresentationProjectionLayer_init config init layer tk tg rl nh hs) \<longleftrightarrow>
      (tk \<and> (tg \<or> rl)) \<or> (rl \<and> nh \<le> 0) \<or>
      hidden_dropout_prob config < 0 \<or> 1 < hidden_dropout_prob config \<or>
      config_hidden_size config < 0 \<or> (rl \<and> hs < 0)) \<and>
   (\<forall>self. RepresentationProjectionLayer_init config init layer tk tg rl nh hs = Inr self \<longrightarrow>
      tokens self = tk \<and> tagger self = tg \<and> relations self = rl \<and>
      \<not> (tokens self \<and> (tagger self \<or> relations self)) \<and>
      (relations self \<longrightarrow> (\<exists>attrs. rel_attrs self = Some attrs \<and> 0 < num_attention_heads attrs))) \<and>
   (\<forall>msg. RepresentationProjectionLayer_forward layer_obj features ev \<noteq> Inl (PyException msg)) \<and>
   (int (num_layers enc) < config_layer config \<longrightarrow>
      CnlpModelForClassification_init module_attrs config enc inits cw w = Inl ValueError)"
proof -
  have p: "0 < nh \<Longrightarrow> nh * hs < 0 \<longleftrightarrow> hs < 0"
    by (simp add: mult_less_0_iff)
  have 1: "isl (RepresentationProjectionLayer_init config init layer tk tg rl nh hs) \<longleftrightarrow>
      (tk \<and> (tg \<or> rl)) \<or> (rl \<and> nh \<le> 0) \<or>
      hidden_dropout_prob config < 0 \<or> 1 < hidden_dropout_prob config \<or>
      config_hidden_size config < 0 \<or> (rl \<and> hs < 0)"
    using p
    by (auto simp: RepresentationProjectionLayer_init_def nn_Dropout_def nn_Linear_def
        ebind_def Let_def)
  have 2: "\<forall>self. RepresentationProjectionLayer_init config init layer tk tg rl nh hs = Inr self \<longrightarrow>
      tokens self = tk \<and> tagger self = tg \<and> relations self = rl \<and>
      \<not> (tokens self \<and> (tagger self \<or> relations self)) \<and>
      (relations self \<longrightarrow> (\<exists>attrs. rel_attrs self = Some attrs \<and> 0 < num_attention_heads attrs))"
    by (auto simp: RepresentationProjectionLayer_init_def nn_Dropout_def nn_Linear_def
        ebind_def Let_def split: if_splits)
  have 3: "\<forall>msg. RepresentationProjectionLayer_forward layer_obj features ev \<noteq> Inl (PyException msg)"
    by (simp add: forward_no_exc)
  have 4: "int (num_layers enc) < config_layer config \<longrightarrow>
      CnlpModelForClassification_init module_attrs config enc inits cw w = Inl ValueError"
    by (simp add: CnlpModelForClassification_init_def)
  show ?thesis using 1 2 3 4 by (intro conjI)
qed

theorem construction_validation_witness:
  "RepresentationProjectionLayer_init (example_config (- 1)) example_layer_init (- 1)
      True True False 12 64 =
     Inl (PyException
       ''Inconsistent configuration: tokens cannot be true in tagger or relation mode'') \<and>
   RepresentationProjectionLayer_init (example_config (- 1)) example_layer_init (- 1)
      False False True 0 64 =
     Inl (PyException
       ''Inconsistent configuration: num_attention_heads must be > 0 for relations'') \<and>
   hidden_dropout_prob (example_config (- 1)) = 1 / 10 \<and>
   config_hidden_size (example_config (- 1)) = 1 \<and>
   \<not> isl (RepresentationProjectionLayer_init (example_config (- 1)) example_layer_init (- 1)
      False True False (- 1) 64) \<and>
   \<not> isl (RepresentationProjectionLayer_init (example_config (- 1)) example_layer_init (- 1)
      False False True 12 64) \<and>
   relations (projr (RepresentationProjectionLayer_init (example_config (- 1)) example_layer_init
      (- 1) False False True 12 64)) \<and>
   rel_attrs (projr (RepresentationProjectionLayer_init (example_config (- 1)) example_layer_init
      (- 1) False False True 12 64)) \<noteq> None \<and>
   num_layers example_encoder = 1 \<and> config_layer (example_config 2) = 2 \<and>
   CnlpModelForClassification_init example_module_attrs (example_config 2) example_encoder
      (\<lambda>name. (example_layer_init, example_head_init)) None 1 = Inl ValueError"
proof -
  have a: "RepresentationProjectionLayer_init (example_config (- 1)) example_layer_init (- 1)
      True True False 12 64 =
     Inl (PyException
       ''Inconsistent configuration: tokens cannot be true in tagger or relation mode'')"
    by (simp add: RepresentationProjectionLayer_init_def nn_Dropout_def nn_Linear_def ebind_def
        example_config_def)
  have b: "RepresentationProjectionLayer_init (example_config (- 1)) example_layer_init (- 1)
      False False True 0 64 =
     Inl (PyException
       ''Inconsistent configuration: num_attention_heads must be > 0 for relations'')"
    by (simp add: RepresentationProjectionLayer_init_def nn_Dropout_def nn_Linear_def ebind_def
        example_config_def)
  have pr: "hidden_dropout_prob (example_config (- 1)) = 1 / 10"
    "config_hidden_size (example_config (- 1)) = 1"
    by (simp_all add: example_config_def)
  have c: "\<not> isl (RepresentationProjectionLayer_init (example_config (- 1)) example_layer_init (- 1)
      False True False (- 1) 64)"
    using construction_validation [of "example_config (- 1)" example_layer_init "- 1"
        False True False "- 1" 64] pr
    by simp
  note rel = construction_validation [where config = "example_config (- 1)"
        and init = example_layer_init and layer = "- 1" and tk = False and tg = False
        and rl = True and nh = 12 and hs = 64 and layer_obj = relation_layer
        and features = "[relation_hidden]" and ev = None and enc = example_encoder
        and inits = "\<lambda>name. (example_layer_init, example_head_init)" and cw = None and w = 1
        and module_attrs = example_module_attrs]
  have d: "\<not> isl (RepresentationProjectionLayer_init (example_config (- 1)) example_layer_init (- 1)
      False False True 12 64)"
    using rel pr by simp
  then obtain self where self: "RepresentationProjectionLayer_init (example_config (- 1))
      example_layer_init (- 1) False False True 12 64 = Inr self"
    by (cases "RepresentationProjectionLayer_init (example_config (- 1))
      example_layer_init (- 1) False False True 12 64") simp_all
  from rel self have flags: "relations self" "rel_attrs self \<noteq> None"
    by auto
  have n: "num_layers example_encoder = 1"
    by (simp add: example_encoder_def)
  have l: "config_layer (example_config 2) = 2"
    by (simp add: example_config_def)
  have e: "CnlpModelForClassification_init example_module_attrs (example_config 2) example_encoder
      (\<lambda>name. (example_layer_init, example_head_init)) None 1 = Inl ValueError"
    using construction_validation [where config = "example_config 2" and enc = example_encoder
        and inits = "\<lambda>name. (example_layer_init, example_head_init)" and cw = None and w = 1
        and module_attrs = example_module_attrs] n l
    by simp
  show ?thesis using a b pr c d self flags n l e by simp
qed

subsection \<open>The contract of the forward pass\<close>

text \<open>
  C9: whenever the forward pass returns, its list of logits has exactly one tensor per
  declared task, in the declared order: the tensor at position \<open>k\<close> is the logits computed
  for task \<open>k\<close> from the encoder's hidden states and the logits before it.  The loss is
  null when labels are omitted, and non-null when labels are supplied to a model
  that declares at least one task (the system attaches one or more heads).
\<close>

theorem forward_logits_per_task_and_loss:
  assumes "forward fns self inputs = Inr (out, msgs)"
  shows "length (out_logits out) = length (tasks self) \<and>
     (\<exists>kwargs outputs. encoder_call (encoder self) (input_ids inputs) kwargs = Inr outputs \<and>
        (\<forall>k<length (tasks self). \<exists>mm.
           task_logits_of self (hidden_states outputs) (event_tokens_arg inputs)
             (take k (out_logits out)) (tasks self ! k) = Inr (out_logits out ! k, mm))) \<and>
     (labels_arg inputs = None \<longrightarrow> out_loss out = None) \<and>
     (labels_arg inputs \<noteq> None \<longrightarrow> tasks self \<noteq> [] \<longrightarrow> out_loss out \<noteq> None)"
proof -
  from assms obtain kwargs m0 outputs B S lg st where
    enc: "encoder_call (encoder self) (input_ids inputs) kwargs = Inr outputs"
    and loop: "task_loop fns self (hidden_states outputs) (event_tokens_arg inputs)
               (labels_arg inputs) B S ([], \<lparr> loss = None, task_label_ind = 0 \<rparr>, m0)
               (zip [0..<0 + length (tasks self)] (tasks self)) = Inr (lg, st, msgs)"
    and out: "out_logits out = lg" "out_loss out = loss st"
    by (auto simp: forward_def ebind_def Let_def
        split: sum.splits option.splits prod.splits if_splits)
  note L = task_loop_logits[OF loop]
  have 1: "length (out_logits out) = length (tasks self)" using L out by simp
  have 2: "\<forall>k<length (tasks self). \<exists>mm.
           task_logits_of self (hidden_states outputs) (event_tokens_arg inputs)
             (take k (out_logits out)) (tasks self ! k) = Inr (out_logits out ! k, mm)"
    using L out by simp
  have 3: "labels_arg inputs = None \<longrightarrow> out_loss out = None" using L out by simp
  have 4: "labels_arg inputs \<noteq> None \<longrightarrow> tasks self \<noteq> [] \<longrightarrow> out_loss out \<noteq> None"
    using L out by simp
  show ?thesis using enc 1 2 3 4 by blast
qed

theorem forward_logits_per_task_and_loss_witness:
  "\<not> isl (forward probe_losses (example_model [''reg'', ''cls''] 1) example_inputs) \<and>
   length (out_logits (fst (projr
     (forward probe_losses (example_model [''reg'', ''cls''] 1) example_inputs)))) = 2 \<and>
   tasks (example_model [''reg'', ''cls''] 1) = [''reg'', ''cls''] \<and>
   labels_arg example_inputs \<noteq> None \<and>
   out_loss (fst (projr
     (forward probe_losses (example_model [''reg'', ''cls''] 1) example_inputs))) \<noteq> None \<and>
   \<not> isl (forward probe_losses (example_model [''reg'', ''cls''] 1) example_inputs_no_labels) \<and>
   length (out_logits (fst (projr
     (forward probe_losses (example_model [''reg'', ''cls''] 1) example_inputs_no_labels)))) = 2 \<and>
   labels_arg example_inputs_no_labels = None \<and>
   out_loss (fst (projr
     (forward probe_losses (example_model [''reg'', ''cls''] 1) example_inputs_no_labels))) = None"
proof -
  obtain out1 where f1: "forward probe_losses (example_model [''reg'', ''cls''] 1) example_inputs
      = Inr (out1, [])"
    by (simp add: example_forward_reg_cls)
  obtain out2 where f2: "forward probe_losses (example_model [''reg'', ''cls''] 1)
      example_inputs_no_labels = Inr (out2, [])"
    by (simp add: example_forward_reg_cls_no_labels)
  have t: "tasks (example_model [''reg'', ''cls''] 1) = [''reg'', ''cls'']"
    by (simp add: example_model_def)
  have l1: "labels_arg example_inputs \<noteq> None"
    by (simp add: example_inputs_def)
  have l2: "labels_arg example_inputs_no_labels = None"
    by (simp add: example_inputs_no_labels_def)
  show ?thesis
    using forward_logits_per_task_and_loss [OF f1] forward_logits_per_task_and_loss [OF f2]
      f1 f2 t l1 l2
    by simp
qed

end
